theory Spec2Isabelle
  imports Main "HOL-Library.Log_Nat"
begin

section \<open>Python values shared by all modules\<close>

text \<open>
  Exceptions are values: every function that can raise returns \<open>error + 'a\<close>, with
  \<open>Inl\<close> carrying the exception. \<open>ValueError\<close> carries its message, \<open>RestError\<close>
  stands for whatever the REST transport raises (the transport is a collaborator and is
  passed in as a function).
\<close>

datatype error =
    KeyError
  | ValueError string
  | InvalidOperation
  | ZeroDivisionError
  | AttributeError
  | TypeError
  | UnboundLocalError
  | NotImplementedError
  | RuntimeError
  | KlineSupportedError
  | OrderError string
  | RestError nat

text \<open>
  A dict is an association list in insertion order. \<open>d[k]\<close> raises KeyError on a
  missing key; where a key was written twice the later entry is the one that is read.
  \<open>dict_inverse\<close> is the comprehension \<^verbatim>\<open>{v: k for k, v in d.items()}\<close>.
\<close>

definition dict_getitem :: "('k \<times> 'v) list \<Rightarrow> 'k \<Rightarrow> error + 'v" where
  "dict_getitem d k = (case map_of (rev d) k of None \<Rightarrow> Inl KeyError | Some v \<Rightarrow> Inr v)"

definition dict_inverse :: "('k \<times> 'v) list \<Rightarrow> ('v \<times> 'k) list" where
  "dict_inverse d = map (\<lambda>(k, v). (v, k)) d"

section \<open>Canonical enums\<close>

text \<open>
  The canonical enums live in the \<^verbatim>\<open>constants\<close> module, which both the Binance and the
  OKX parser import. Each datatype lists the members that the modules at hand name.
  \<open>KlineInterval\<close> has the fourteen members of the OKX table and the two further
  intervals of \<^verbatim>\<open>BinanceKlineInterval\<close>, which OKX does not offer.
\<close>

datatype OrderStatus =
  PENDING | ACCEPTED | PARTIALLY_FILLED | FILLED | CANCELING | CANCELED | EXPIRED | FAILED

datatype PositionSide = LONG | SHORT | FLAT

datatype OrderSide = BUY | SELL

datatype TimeInForce = GTC | IOC | FOK

datatype OrderType = LIMIT | MARKET

datatype KlineInterval =
    SECOND_1 | MINUTE_1 | MINUTE_3 | MINUTE_5 | MINUTE_15 | MINUTE_30
  | HOUR_1 | HOUR_2 | HOUR_4 | HOUR_6 | HOUR_8 | HOUR_12
  | DAY_1 | DAY_3 | WEEK_1 | MONTH_1

section \<open>Binance enums and \<open>BinanceEnumParser\<close> (exchange/binance/constants.py)\<close>

datatype BinanceBusinessUnit = UM | CM

datatype BinanceTimeInForce = GTC | IOC | FOK | GTX | GTD | GTE_GTC

datatype BinanceOrderSide = BUY | SELL

datatype BinanceOrderType =
    LIMIT | MARKET | STOP | STOP_LOSS | STOP_LOSS_LIMIT | TAKE_PROFIT | TAKE_PROFIT_LIMIT
  | LIMIT_MAKER | TRAILING_STOP_MARKET | TAKE_PROFIT_MARKET | STOP_MARKET

datatype BinanceOrderStatus = NEW | PARTIALLY_FILLED | FILLED | CANCELED | EXPIRED

datatype BinancePositionSide = BOTH | LONG | SHORT

datatype BinanceAccountType =
    SPOT | MARGIN | ISOLATED_MARGIN | USD_M_FUTURE | COIN_M_FUTURE | PORTFOLIO_MARGIN
  | SPOT_TESTNET | USD_M_FUTURE_TESTNET | COIN_M_FUTURE_TESTNET

definition is_spot :: "BinanceAccountType \<Rightarrow> bool" where
  "is_spot a \<longleftrightarrow> a \<in> {SPOT, SPOT_TESTNET}"

definition is_margin :: "BinanceAccountType \<Rightarrow> bool" where
  "is_margin a \<longleftrightarrow> a \<in> {MARGIN}"

definition is_isolated_margin_or_margin :: "BinanceAccountType \<Rightarrow> bool" where
  "is_isolated_margin_or_margin a \<longleftrightarrow> a \<in> {MARGIN, ISOLATED_MARGIN}"

definition is_linear :: "BinanceAccountType \<Rightarrow> bool" where
  "is_linear a \<longleftrightarrow> a \<in> {USD_M_FUTURE, USD_M_FUTURE_TESTNET}"

definition is_inverse :: "BinanceAccountType \<Rightarrow> bool" where
  "is_inverse a \<longleftrightarrow> a \<in> {COIN_M_FUTURE, COIN_M_FUTURE_TESTNET}"

definition is_portfolio_margin :: "BinanceAccountType \<Rightarrow> bool" where
  "is_portfolio_margin a \<longleftrightarrow> a \<in> {PORTFOLIO_MARGIN}"

definition binance_order_status_map :: "(BinanceOrderStatus \<times> OrderStatus) list" where
  "binance_order_status_map =
    [(BinanceOrderStatus.NEW, OrderStatus.ACCEPTED),
     (BinanceOrderStatus.PARTIALLY_FILLED, OrderStatus.PARTIALLY_FILLED),
     (BinanceOrderStatus.FILLED, OrderStatus.FILLED),
     (BinanceOrderStatus.CANCELED, OrderStatus.CANCELED),
     (BinanceOrderStatus.EXPIRED, OrderStatus.EXPIRED)]"

definition binance_position_side_map :: "(BinancePositionSide \<times> PositionSide) list" where
  "binance_position_side_map =
    [(BinancePositionSide.LONG, PositionSide.LONG),
     (BinancePositionSide.SHORT, PositionSide.SHORT),
     (BinancePositionSide.BOTH, PositionSide.FLAT)]"

definition binance_order_side_map :: "(BinanceOrderSide \<times> OrderSide) list" where
  "binance_order_side_map =
    [(BinanceOrderSide.BUY, OrderSide.BUY), (BinanceOrderSide.SELL, OrderSide.SELL)]"

definition binance_order_time_in_force_map :: "(BinanceTimeInForce \<times> TimeInForce) list" where
  "binance_order_time_in_force_map =
    [(BinanceTimeInForce.IOC, TimeInForce.IOC),
     (BinanceTimeInForce.GTC, TimeInForce.GTC),
     (BinanceTimeInForce.FOK, TimeInForce.FOK)]"

definition binance_order_type_map :: "(BinanceOrderType \<times> OrderType) list" where
  "binance_order_type_map =
    [(BinanceOrderType.LIMIT, OrderType.LIMIT), (BinanceOrderType.MARKET, OrderType.MARKET)]"

definition order_status_to_binance_map :: "(OrderStatus \<times> BinanceOrderStatus) list" where
  "order_status_to_binance_map = dict_inverse binance_order_status_map"

definition position_side_to_binance_map :: "(PositionSide \<times> BinancePositionSide) list" where
  "position_side_to_binance_map = dict_inverse binance_position_side_map"

definition order_side_to_binance_map :: "(OrderSide \<times> BinanceOrderSide) list" where
  "order_side_to_binance_map = dict_inverse binance_order_side_map"

definition time_in_force_to_binance_map :: "(TimeInForce \<times> BinanceTimeInForce) list" where
  "time_in_force_to_binance_map = dict_inverse binance_order_time_in_force_map"

definition order_type_to_binance_map :: "(OrderType \<times> BinanceOrderType) list" where
  "order_type_to_binance_map = dict_inverse binance_order_type_map"

definition parse_order_status :: "BinanceOrderStatus \<Rightarrow> error + OrderStatus" where
  "parse_order_status status = dict_getitem binance_order_status_map status"

definition parse_position_side :: "BinancePositionSide \<Rightarrow> error + PositionSide" where
  "parse_position_side side = dict_getitem binance_position_side_map side"

definition parse_order_side :: "BinanceOrderSide \<Rightarrow> error + OrderSide" where
  "parse_order_side side = dict_getitem binance_order_side_map side"

definition parse_time_in_force :: "BinanceTimeInForce \<Rightarrow> error + TimeInForce" where
  "parse_time_in_force tif = dict_getitem binance_order_time_in_force_map tif"

definition parse_order_type :: "BinanceOrderType \<Rightarrow> error + OrderType" where
  "parse_order_type order_type = dict_getitem binance_order_type_map order_type"

definition to_binance_order_status :: "OrderStatus \<Rightarrow> error + BinanceOrderStatus" where
  "to_binance_order_status status = dict_getitem order_status_to_binance_map status"

definition to_binance_position_side :: "PositionSide \<Rightarrow> error + BinancePositionSide" where
  "to_binance_position_side side = dict_getitem position_side_to_binance_map side"

definition to_binance_order_side :: "OrderSide \<Rightarrow> error + BinanceOrderSide" where
  "to_binance_order_side side = dict_getitem order_side_to_binance_map side"

definition to_binance_time_in_force :: "TimeInForce \<Rightarrow> error + BinanceTimeInForce" where
  "to_binance_time_in_force tif = dict_getitem time_in_force_to_binance_map tif"

definition to_binance_order_type :: "OrderType \<Rightarrow> error + BinanceOrderType" where
  "to_binance_order_type order_type = dict_getitem order_type_to_binance_map order_type"

section \<open>OKX enums and \<open>OkxEnumParser\<close> (exchange/okx/constants.py)\<close>

datatype OkxKlineInterval =
    SECOND_1 | MINUTE_1 | MINUTE_3 | MINUTE_5 | MINUTE_15 | MINUTE_30
  | HOUR_1 | HOUR_4 | HOUR_6 | HOUR_12 | DAY_1 | DAY_3 | WEEK_1 | MONTH_1

datatype OkxPositionSide = LONG | SHORT | NET | NONE

datatype OkxOrderSide = BUY | SELL

datatype OkxOrderType =
  MARKET | LIMIT | POST_ONLY | FOK | IOC | OPTIMAL_LIMIT_IOC | MMP | MMP_AND_POST_ONLY

datatype OkxOrderStatus = CANCELED | LIVE | PARTIALLY_FILLED | FILLED | MMP_CANCELED

definition okx_kline_interval_map :: "(OkxKlineInterval \<times> KlineInterval) list" where
  "okx_kline_interval_map =
    [(OkxKlineInterval.SECOND_1, KlineInterval.SECOND_1),
     (OkxKlineInterval.MINUTE_1, KlineInterval.MINUTE_1),
     (OkxKlineInterval.MINUTE_3, KlineInterval.MINUTE_3),
     (OkxKlineInterval.MINUTE_5, KlineInterval.MINUTE_5),
     (OkxKlineInterval.MINUTE_15, KlineInterval.MINUTE_15),
     (OkxKlineInterval.MINUTE_30, KlineInterval.MINUTE_30),
     (OkxKlineInterval.HOUR_1, KlineInterval.HOUR_1),
     (OkxKlineInterval.HOUR_4, KlineInterval.HOUR_4),
     (OkxKlineInterval.HOUR_6, KlineInterval.HOUR_6),
     (OkxKlineInterval.HOUR_12, KlineInterval.HOUR_12),
     (OkxKlineInterval.DAY_1, KlineInterval.DAY_1),
     (OkxKlineInterval.DAY_3, KlineInterval.DAY_3),
     (OkxKlineInterval.WEEK_1, KlineInterval.WEEK_1),
     (OkxKlineInterval.MONTH_1, KlineInterval.MONTH_1)]"

definition okx_order_status_map :: "(OkxOrderStatus \<times> OrderStatus) list" where
  "okx_order_status_map =
    [(OkxOrderStatus.LIVE, OrderStatus.ACCEPTED),
     (OkxOrderStatus.PARTIALLY_FILLED, OrderStatus.PARTIALLY_FILLED),
     (OkxOrderStatus.FILLED, OrderStatus.FILLED),
     (OkxOrderStatus.CANCELED, OrderStatus.CANCELED)]"

definition okx_position_side_map :: "(OkxPositionSide \<times> PositionSide option) list" where
  "okx_position_side_map =
    [(OkxPositionSide.NET, Some PositionSide.FLAT),
     (OkxPositionSide.LONG, Some PositionSide.LONG),
     (OkxPositionSide.SHORT, Some PositionSide.SHORT),
     (OkxPositionSide.NONE, None)]"

definition okx_order_side_map :: "(OkxOrderSide \<times> OrderSide) list" where
  "okx_order_side_map =
    [(OkxOrderSide.BUY, OrderSide.BUY), (OkxOrderSide.SELL, OrderSide.SELL)]"

definition order_status_to_okx_map :: "(OrderStatus \<times> OkxOrderStatus) list" where
  "order_status_to_okx_map = dict_inverse okx_order_status_map"

definition position_side_to_okx_map :: "(PositionSide \<times> OkxPositionSide) list" where
  "position_side_to_okx_map =
    [(PositionSide.FLAT, OkxPositionSide.NET),
     (PositionSide.LONG, OkxPositionSide.LONG),
     (PositionSide.SHORT, OkxPositionSide.SHORT)]"

definition order_side_to_okx_map :: "(OrderSide \<times> OkxOrderSide) list" where
  "order_side_to_okx_map = dict_inverse okx_order_side_map"

definition kline_interval_to_okx_map :: "(KlineInterval \<times> OkxKlineInterval) list" where
  "kline_interval_to_okx_map = dict_inverse okx_kline_interval_map"

definition okx_parse_kline_interval :: "OkxKlineInterval \<Rightarrow> error + KlineInterval" where
  "okx_parse_kline_interval interval = dict_getitem okx_kline_interval_map interval"

definition okx_parse_order_status :: "OkxOrderStatus \<Rightarrow> error + OrderStatus" where
  "okx_parse_order_status status = dict_getitem okx_order_status_map status"

definition okx_parse_position_side :: "OkxPositionSide \<Rightarrow> error + PositionSide option" where
  "okx_parse_position_side side = dict_getitem okx_position_side_map side"

definition okx_parse_order_side :: "OkxOrderSide \<Rightarrow> error + OrderSide" where
  "okx_parse_order_side side = dict_getitem okx_order_side_map side"

fun okx_parse_order_type :: "OkxOrderType \<Rightarrow> error + OrderType" where
  "okx_parse_order_type OkxOrderType.MARKET = Inr OrderType.MARKET"
| "okx_parse_order_type OkxOrderType.LIMIT = Inr OrderType.LIMIT"
| "okx_parse_order_type OkxOrderType.IOC = Inr OrderType.LIMIT"
| "okx_parse_order_type OkxOrderType.FOK = Inr OrderType.LIMIT"
| "okx_parse_order_type OkxOrderType.POST_ONLY = Inr OrderType.LIMIT"
| "okx_parse_order_type _ = Inl NotImplementedError"

fun okx_parse_time_in_force :: "OkxOrderType \<Rightarrow> error + TimeInForce" where
  "okx_parse_time_in_force OkxOrderType.MARKET = Inr TimeInForce.GTC"
| "okx_parse_time_in_force OkxOrderType.LIMIT = Inr TimeInForce.GTC"
| "okx_parse_time_in_force OkxOrderType.POST_ONLY = Inr TimeInForce.GTC"
| "okx_parse_time_in_force OkxOrderType.FOK = Inr TimeInForce.FOK"
| "okx_parse_time_in_force OkxOrderType.IOC = Inr TimeInForce.IOC"
| "okx_parse_time_in_force _ = Inl NotImplementedError"

definition to_okx_order_status :: "OrderStatus \<Rightarrow> error + OkxOrderStatus" where
  "to_okx_order_status status = dict_getitem order_status_to_okx_map status"

definition to_okx_position_side :: "PositionSide \<Rightarrow> error + OkxPositionSide" where
  "to_okx_position_side side = dict_getitem position_side_to_okx_map side"

definition to_okx_order_side :: "OrderSide \<Rightarrow> error + OkxOrderSide" where
  "to_okx_order_side side = dict_getitem order_side_to_okx_map side"

text \<open>
  \<open>to_okx_order_type\<close>: a market order maps to MARKET whatever its time in force; any
  other order type is mapped by its time in force alone. The final \<^verbatim>\<open>case _\<close> of the
  source (RuntimeError) has no member of \<open>TimeInForce\<close> left to match.
\<close>

definition to_okx_order_type :: "OrderType \<Rightarrow> TimeInForce \<Rightarrow> error + OkxOrderType" where
  "to_okx_order_type order_type time_in_force =
    (if order_type = OrderType.MARKET then Inr OkxOrderType.MARKET
     else (case time_in_force of
             TimeInForce.GTC \<Rightarrow> Inr OkxOrderType.LIMIT
           | TimeInForce.FOK \<Rightarrow> Inr OkxOrderType.FOK
           | TimeInForce.IOC \<Rightarrow> Inr OkxOrderType.IOC))"

definition to_okx_kline_interval :: "KlineInterval \<Rightarrow> error + OkxKlineInterval" where
  "to_okx_kline_interval interval =
    (if interval \<notin> fst ` set kline_interval_to_okx_map then Inl KlineSupportedError
     else dict_getitem kline_interval_to_okx_map interval)"



section \<open>Python numbers\<close>

text \<open>
  Binance sends every quantity and price as a decimal numeral in a string. The model
  reads the plain form: an optional sign, digits, and at most one point with digits on
  either side (at least one digit in all). Anything else, the empty string included, is
  rejected by both \<^verbatim>\<open>Decimal(s)\<close> (InvalidOperation) and \<^verbatim>\<open>float(s)\<close> (ValueError).
  The further spellings that Python accepts (an exponent part, surrounding blanks,
  underscores, infinities and NaN) do not occur on this wire and are not modelled.
\<close>

fun bnd :: "error + 'a \<Rightarrow> ('a \<Rightarrow> error + 'b) \<Rightarrow> error + 'b" where
  "bnd (Inl e) f = Inl e"
| "bnd (Inr x) f = f x"

definition digit_val :: "char \<Rightarrow> nat option" where
  "digit_val c = map_of (zip ''0123456789'' [0, 1, 2, 3, 4, 5, 6, 7, 8, 9]) c"

fun digits_val :: "nat \<Rightarrow> string \<Rightarrow> nat option" where
  "digits_val acc [] = Some acc"
| "digits_val acc (c # cs) =
     (case digit_val c of None \<Rightarrow> None | Some d \<Rightarrow> digits_val (10 * acc + d) cs)"

definition split_sign :: "string \<Rightarrow> int \<times> string" where
  "split_sign s = (case s of [] \<Rightarrow> (1, [])
      | c # r \<Rightarrow> if c = CHR ''-'' then (- 1, r) else if c = CHR ''+'' then (1, r) else (1, s))"

text \<open>\<open>parse_numeral s = Some (n, k)\<close>: the string denotes \<open>n / 10 ^ k\<close>.\<close>

definition parse_numeral :: "string \<Rightarrow> (int \<times> nat) option" where
  "parse_numeral s =
    (let (sg, r) = split_sign s;
         ip = takeWhile (\<lambda>c. c \<noteq> CHR ''.'') r;
         fp = drop 1 (dropWhile (\<lambda>c. c \<noteq> CHR ''.'') r)
     in if ip @ fp = [] then None
        else (case digits_val 0 (ip @ fp) of
                Some n \<Rightarrow> Some (sg * int n, length fp)
              | None \<Rightarrow> None))"

text \<open>
  A \<^verbatim>\<open>Decimal\<close> is modelled by the rational number it denotes, and Decimal arithmetic by
  the exact operations. Python rounds a result to the 28 significant digits of the
  default context; the model describes the code as long as results fit that precision,
  which quantities and prices of an exchange do.
\<close>

definition Decimal :: "string \<Rightarrow> error + rat" where
  "Decimal s = (case parse_numeral s of
      None \<Rightarrow> Inl InvalidOperation
    | Some (n, k) \<Rightarrow> Inr (of_int n / of_nat (10 ^ k)))"

text \<open>
  A Python float is a binary64 number: \<open>Float m e\<close> denotes \<open>m * 2 ^ e\<close>, with
  \<open>2 ^ 52 \<le> \<bar>m\<bar> < 2 ^ 53\<close> for a nonzero number and \<open>Float 0 0\<close> for zero.
  \<open>round_ratio n d\<close> is the float nearest to \<open>n / d\<close> (\<open>0 < d\<close>), ties to the even
  mantissa, as conversion from a string and every float operation round. The exponent
  range is not bounded: overflow to infinity and subnormal numbers are not modelled.
\<close>

datatype pyfloat = Float int int

definition float_value :: "pyfloat \<Rightarrow> rat" where
  "float_value x = (case x of Float m e \<Rightarrow>
     if 0 \<le> e then of_int (m * 2 ^ nat e) else of_int m / of_int (2 ^ nat (- e)))"

definition round_half_even_div :: "int \<Rightarrow> int \<Rightarrow> int" where
  "round_half_even_div n d =
    (let f = n div d; r = n mod d
     in if 2 * r < d then f else if d < 2 * r then f + 1 else if even f then f else f + 1)"

definition round_ratio :: "int \<Rightarrow> int \<Rightarrow> pyfloat" where
  "round_ratio n d =
    (if n = 0 then Float 0 0
     else (let a = \<bar>n\<bar>;
               k = int (floorlog 2 (nat a)) - int (floorlog 2 (nat d));
               e = (if (if 0 \<le> k then d * 2 ^ nat k \<le> a else d \<le> a * 2 ^ nat (- k))
                    then k else k - 1);
               t = 52 - e;
               m = (if 0 \<le> t then round_half_even_div (a * 2 ^ nat t) d
                    else round_half_even_div a (d * 2 ^ nat (- t)))
           in if m = 2 ^ 53 then Float (sgn n * 2 ^ 52) (e + 1 - 52)
              else Float (sgn n * m) (e - 52)))"

definition round_scaled :: "int \<Rightarrow> int \<Rightarrow> int \<Rightarrow> pyfloat" where
  "round_scaled n d s =
    (if 0 \<le> s then round_ratio (n * 2 ^ nat s) d else round_ratio n (d * 2 ^ nat (- s)))"

definition py_float :: "string \<Rightarrow> error + pyfloat" where
  "py_float s = (case parse_numeral s of
      None \<Rightarrow> Inl (ValueError ''could not convert string to float'')
    | Some (n, k) \<Rightarrow> Inr (round_ratio n (10 ^ k)))"

definition float_of_Decimal :: "rat \<Rightarrow> pyfloat" where
  "float_of_Decimal r = (case quotient_of r of (n, d) \<Rightarrow> round_ratio n d)"

definition float_mul :: "pyfloat \<Rightarrow> pyfloat \<Rightarrow> pyfloat" where
  "float_mul x y = (case (x, y) of (Float m1 e1, Float m2 e2) \<Rightarrow>
     round_scaled (m1 * m2) 1 (e1 + e2))"

definition float_truediv :: "pyfloat \<Rightarrow> pyfloat \<Rightarrow> error + pyfloat" where
  "float_truediv x y = (case (x, y) of (Float m1 e1, Float m2 e2) \<Rightarrow>
     if m2 = 0 then Inl ZeroDivisionError
     else Inr (round_scaled (m1 * sgn m2) \<bar>m2\<bar> (e1 - e2)))"

definition float_less :: "pyfloat \<Rightarrow> pyfloat \<Rightarrow> bool" where
  "float_less x y = (case (x, y) of (Float m1 e1, Float m2 e2) \<Rightarrow>
     if e2 \<le> e1 then m1 * 2 ^ nat (e1 - e2) < m2 else m1 < m2 * 2 ^ nat (e2 - e1))"

text \<open>\<^verbatim>\<open>max(x, y)\<close> keeps \<open>x\<close> unless \<open>y\<close> is greater.\<close>

definition float_max :: "pyfloat \<Rightarrow> pyfloat \<Rightarrow> pyfloat" where
  "float_max x y = (if float_less x y then y else x)"

definition float_is_zero :: "pyfloat \<Rightarrow> bool" where
  "float_is_zero x = (case x of Float m e \<Rightarrow> m = 0)"

text \<open>
  Values of fields and keyword arguments whose Python type varies from call to call.
\<close>

datatype pyval =
  PyNone | PyBool bool | PyInt int | PyStr string | PyDecimal rat | PyFloat pyfloat

fun truthy :: "pyval \<Rightarrow> bool" where
  "truthy PyNone = False"
| "truthy (PyBool b) = b"
| "truthy (PyInt i) = (i \<noteq> 0)"
| "truthy (PyStr s) = (s \<noteq> [])"
| "truthy (PyDecimal r) = (r \<noteq> 0)"
| "truthy (PyFloat x) = (\<not> float_is_zero x)"

text \<open>\<open>d[k] = v\<close>, \<open>d.update(e)\<close> and \<open>d.pop(k, default)\<close> on a dict.\<close>

fun dict_setitem :: "('k \<times> 'v) list \<Rightarrow> 'k \<Rightarrow> 'v \<Rightarrow> ('k \<times> 'v) list" where
  "dict_setitem [] k v = [(k, v)]"
| "dict_setitem ((k', v') # d) k v =
     (if k' = k then (k, v) # d else (k', v') # dict_setitem d k v)"

fun dict_update :: "('k \<times> 'v) list \<Rightarrow> ('k \<times> 'v) list \<Rightarrow> ('k \<times> 'v) list" where
  "dict_update d [] = d"
| "dict_update d ((k, v) # e) = dict_update (dict_setitem d k v) e"

definition dict_pop :: "('k \<times> 'v) list \<Rightarrow> 'k \<Rightarrow> 'v \<Rightarrow> 'v \<times> ('k \<times> 'v) list" where
  "dict_pop d k dflt =
    (case map_of d k of None \<Rightarrow> (dflt, d) | Some v \<Rightarrow> (v, filter (\<lambda>(k', _). k' \<noteq> k) d))"

section \<open>Canonical schema (schema.py)\<close>

text \<open>
  \<open>Order\<close> and \<open>Position\<close> carry the fields that the connector passes to their
  constructors; a field that a call leaves out keeps its default, written \<open>None\<close> or
  \<open>PyNone\<close>. The fields \<^verbatim>\<open>id\<close> and \<^verbatim>\<open>type\<close> are \<open>order_id\<close> and \<open>order_type\<close> here.
\<close>

record Order =
  exchange :: string
  symbol :: string
  status :: OrderStatus
  order_id :: "int option"
  amount :: pyval
  filled :: pyval
  client_order_id :: "string option"
  timestamp :: int
  order_type :: "OrderType option"
  side :: "OrderSide option"
  time_in_force :: "TimeInForce option"
  price :: pyval
  average :: pyval
  last_filled_price :: pyval
  last_filled :: pyval
  remaining :: pyval
  fee :: pyval
  fee_currency :: "string option"
  cum_cost :: pyval
  cost :: pyval
  reduce_only :: "bool option"
  position_side :: "PositionSide option"

definition empty_order :: "string \<Rightarrow> string \<Rightarrow> OrderStatus \<Rightarrow> int \<Rightarrow> Order" where
  "empty_order ex smb st ts =
    \<lparr>exchange = ex, symbol = smb, status = st, order_id = None, amount = PyNone,
     filled = PyNone, client_order_id = None, timestamp = ts, order_type = None,
     side = None, time_in_force = None, price = PyNone, average = PyNone,
     last_filled_price = PyNone, last_filled = PyNone, remaining = PyNone, fee = PyNone,
     fee_currency = None, cum_cost = PyNone, cost = PyNone, reduce_only = None,
     position_side = None\<rparr>"

record Position =
  pos_symbol :: string
  pos_exchange :: string
  signed_amount :: rat
  pos_side :: "PositionSide option"
  entry_price :: pyfloat
  unrealized_pnl :: pyfloat
  realized_pnl :: "pyfloat option"

record Balance =
  asset :: string
  free :: rat
  locked :: rat

section \<open>Binance wire messages (exchange/binance/schema.py)\<close>

text \<open>
  The message structs are declared outside the sources at hand. The records list the
  attributes that the connector reads, under a prefix (\<open>fo_s\<close> is attribute \<^verbatim>\<open>s\<close> of the
  futures order data); numerals are strings, as Binance sends them.
\<close>

record BinanceFuturesOrderData =
  fo_s :: string
  fo_c :: string
  fo_S :: BinanceOrderSide
  fo_o :: BinanceOrderType
  fo_f :: BinanceTimeInForce
  fo_q :: string
  fo_p :: string
  fo_ap :: string
  fo_X :: BinanceOrderStatus
  fo_i :: int
  fo_l :: string
  fo_z :: string
  fo_L :: string
  fo_n :: string
  fo_N :: "string option"
  fo_R :: bool
  fo_ps :: BinancePositionSide

record BinanceFuturesOrderUpdateMsg =
  fu_E :: int
  fu_fs :: "BinanceBusinessUnit option"
  fu_o :: BinanceFuturesOrderData

record BinanceSpotOrderUpdateMsg =
  sp_s :: string
  sp_c :: string
  sp_S :: BinanceOrderSide
  sp_o :: BinanceOrderType
  sp_f :: BinanceTimeInForce
  sp_q :: string
  sp_p :: string
  sp_X :: BinanceOrderStatus
  sp_i :: int
  sp_l :: string
  sp_z :: string
  sp_L :: string
  sp_n :: string
  sp_N :: "string option"
  sp_Z :: string
  sp_Y :: string
  sp_E :: int

record BinanceFuturesPositionData =
  pd_s :: string
  pd_pa :: string
  pd_ps :: BinancePositionSide
  pd_ep :: string
  pd_up :: string
  pd_cr :: string

text \<open>
  \<open>au_balances\<close> is what \<^verbatim>\<open>res.a.parse_to_balances()\<close> evaluates to, \<open>au_P\<close> is
  \<^verbatim>\<open>res.a.P\<close>.
\<close>

record BinanceFuturesUpdateMsg =
  au_fs :: "BinanceBusinessUnit option"
  au_balances :: "error + Balance list"
  au_P :: "BinanceFuturesPositionData list"

record BinanceFuturesPositionInfo =
  pi_symbol :: string
  pi_positionAmt :: string
  pi_positionSide :: BinancePositionSide
  pi_entryPrice :: string
  pi_unrealizedProfit :: string

record BinanceAccountInfo =
  ai_balances :: "error + Balance list"
  ai_positions :: "BinanceFuturesPositionInfo list"

record BinanceOrderResponse =
  res_orderId :: int
  res_clientOrderId :: string
  res_updateTime :: int
  res_price :: "string option"
  res_avgPrice :: "string option"
  res_origQty :: string
  res_executedQty :: string
  res_type :: "BinanceOrderType option"
  res_side :: "BinanceOrderSide option"
  res_timeInForce :: "BinanceTimeInForce option"
  res_reduceOnly :: "bool option"
  res_positionSide :: "BinancePositionSide option"

record BinanceMarket =
  market_id_of :: string
  market_spot :: bool
  market_margin :: bool
  market_linear :: bool
  market_inverse :: bool
  limits_cost_min :: pyfloat
  limits_amount_min :: pyfloat

text \<open>
  The Binance constants that the connector uses beyond the enum parser above are
  declared outside the sources at hand and are passed in: the \<^verbatim>\<open>is_market\<close> and
  \<^verbatim>\<open>is_limit\<close> properties of \<open>BinanceOrderType\<close> and the two order-type parsers.
\<close>

record BinanceOrderTypeExt =
  type_is_market :: "BinanceOrderType \<Rightarrow> bool"
  type_is_limit :: "BinanceOrderType \<Rightarrow> bool"
  parse_futures_order_type :: "BinanceOrderType \<Rightarrow> error + OrderType"
  parse_spot_order_type :: "BinanceOrderType \<Rightarrow> error + OrderType"

text \<open>
  Modelled from the spec: the method \<^verbatim>\<open>BinancePositionSide.parse_to_position_side\<close> is
  declared outside the sources at hand. The netted side BOTH is the canonical FLAT, as in
  \<open>binance_position_side_map\<close> and in the OKX method of the same name.
\<close>

fun parse_to_position_side :: "BinancePositionSide \<Rightarrow> PositionSide" where
  "parse_to_position_side BinancePositionSide.BOTH = PositionSide.FLAT"
| "parse_to_position_side BinancePositionSide.LONG = PositionSide.LONG"
| "parse_to_position_side BinancePositionSide.SHORT = PositionSide.SHORT"

section \<open>Binance private connector (exchange/binance/connector.py)\<close>

record BinancePrivateConnector =
  account_type :: BinanceAccountType
  market :: "string \<rightharpoonup> BinanceMarket"
  market_id :: "string \<rightharpoonup> string"
  exchange_id :: string

text \<open>The property falls off its last \<^verbatim>\<open>elif\<close> and returns None for the other account types.\<close>

definition market_type :: "BinancePrivateConnector \<Rightarrow> string option" where
  "market_type self =
    (if is_spot (account_type self) then Some ''_spot''
     else if is_linear (account_type self) then Some ''_linear''
     else if is_inverse (account_type self) then Some ''_inverse''
     else None)"

text \<open>
  The symbol lookup shared by the user-data parsers: the native id with the suffix of
  the business unit, or of the account's market type. Adding None to a string is a
  TypeError, a missing key a KeyError.
\<close>

definition lookup_symbol ::
  "BinancePrivateConnector \<Rightarrow> BinanceBusinessUnit option \<Rightarrow> string \<Rightarrow> error + string" where
  "lookup_symbol self event_unit s =
    bnd (if event_unit = Some UM then Inr (s @ ''_linear'')
         else if event_unit = Some CM then Inr (s @ ''_inverse'')
         else (case market_type self of None \<Rightarrow> Inl TypeError | Some t \<Rightarrow> Inr (s @ t)))
      (\<lambda>i. case market_id self i of None \<Rightarrow> Inl KeyError | Some smb \<Rightarrow> Inr smb)"

text \<open>
  \<open>order_costs\<close> is the \<^verbatim>\<open>if type.is_market ... elif type.is_limit ...\<close> block of
  \<^verbatim>\<open>_parse_order_trade_update\<close>; \<open>Inr None\<close> is the state in which neither branch ran
  and \<^verbatim>\<open>cost\<close>, \<^verbatim>\<open>cum_cost\<close> are unbound. In \<^verbatim>\<open>Decimal(ap) or Decimal(p)\<close> the second
  operand is evaluated only when the first is zero.
\<close>

definition order_costs ::
  "BinanceOrderTypeExt \<Rightarrow> BinanceFuturesOrderData \<Rightarrow> error + (rat \<times> rat) option" where
  "order_costs ext event_data =
    (if type_is_market ext (fo_o event_data) then
       bnd (Decimal (fo_l event_data)) (\<lambda>l.
       bnd (Decimal (fo_ap event_data)) (\<lambda>ap.
       bnd (Decimal (fo_z event_data)) (\<lambda>z.
       bnd (Decimal (fo_ap event_data)) (\<lambda>ap'.
       Inr (Some (l * ap, z * ap'))))))
     else if type_is_limit ext (fo_o event_data) then
       bnd (Decimal (fo_ap event_data)) (\<lambda>ap.
       bnd (if ap \<noteq> 0 then Inr ap else Decimal (fo_p event_data)) (\<lambda>price.
       bnd (Decimal (fo_l event_data)) (\<lambda>l.
       bnd (Decimal (fo_z event_data)) (\<lambda>z.
       Inr (Some (l * price, z * price))))))
     else Inr None)"

text \<open>
  \<open>parse_order_trade_update\<close> returns the Order that is published on
  \<^verbatim>\<open>binance.order\<close>, or the exception that leaves the method before anything is published.
  The arguments of the constructor are evaluated in the order in which they are written.
\<close>

definition parse_order_trade_update ::
  "BinanceOrderTypeExt \<Rightarrow> BinancePrivateConnector \<Rightarrow> BinanceFuturesOrderUpdateMsg
    \<Rightarrow> error + Order" where
  "parse_order_trade_update ext self res =
    (let event_data = fu_o res in
     bnd (lookup_symbol self (fu_fs res) (fo_s event_data)) (\<lambda>smb.
     bnd (order_costs ext event_data) (\<lambda>costs.
     bnd (parse_order_status (fo_X event_data)) (\<lambda>st.
     bnd (Decimal (fo_q event_data)) (\<lambda>amt.
     bnd (Decimal (fo_z event_data)) (\<lambda>fil.
     bnd (parse_futures_order_type ext (fo_o event_data)) (\<lambda>ty.
     bnd (parse_order_side (fo_S event_data)) (\<lambda>sd.
     bnd (parse_time_in_force (fo_f event_data)) (\<lambda>tif.
     bnd (py_float (fo_p event_data)) (\<lambda>pr.
     bnd (py_float (fo_ap event_data)) (\<lambda>avg.
     bnd (py_float (fo_L event_data)) (\<lambda>lfp.
     bnd (py_float (fo_l event_data)) (\<lambda>lf.
     bnd (Decimal (fo_q event_data)) (\<lambda>q.
     bnd (Decimal (fo_z event_data)) (\<lambda>z.
     bnd (Decimal (fo_n event_data)) (\<lambda>fe.
     bnd (case costs of None \<Rightarrow> Inl UnboundLocalError | Some c \<Rightarrow> Inr c) (\<lambda>(cst, cum).
     bnd (parse_position_side (fo_ps event_data)) (\<lambda>pside.
     Inr \<lparr>exchange = exchange_id self, symbol = smb, status = st,
          order_id = Some (fo_i event_data), amount = PyDecimal amt, filled = PyDecimal fil,
          client_order_id = Some (fo_c event_data), timestamp = fu_E res,
          order_type = Some ty, side = Some sd, time_in_force = Some tif,
          price = PyFloat pr, average = PyFloat avg, last_filled_price = PyFloat lfp,
          last_filled = PyFloat lf, remaining = PyDecimal (q - z), fee = PyDecimal fe,
          fee_currency = fo_N event_data, cum_cost = PyDecimal cum, cost = PyDecimal cst,
          reduce_only = Some (fo_R event_data),
          position_side = Some pside\<rparr>))))))))))))))))))"

text \<open>
  \<open>spot_average\<close> is the conditional expression of \<^verbatim>\<open>_parse_execution_report\<close>: its
  condition \<^verbatim>\<open>float(z) != 0\<close> is evaluated first, then \<^verbatim>\<open>float(Z) / float(z)\<close>.
\<close>

definition spot_average :: "BinanceSpotOrderUpdateMsg \<Rightarrow> error + pyval" where
  "spot_average event_data =
    bnd (py_float (sp_z event_data)) (\<lambda>z.
      if \<not> float_is_zero z then
        bnd (py_float (sp_Z event_data)) (\<lambda>Z.
        bnd (py_float (sp_z event_data)) (\<lambda>z'.
        bnd (float_truediv Z z') (\<lambda>a. Inr (PyFloat a))))
      else Inr PyNone)"

definition parse_execution_report ::
  "BinanceOrderTypeExt \<Rightarrow> BinancePrivateConnector \<Rightarrow> BinanceSpotOrderUpdateMsg
    \<Rightarrow> error + Order" where
  "parse_execution_report ext self event_data =
    bnd (lookup_symbol self None (sp_s event_data)) (\<lambda>smb.
    bnd (spot_average event_data) (\<lambda>avg.
    bnd (parse_order_status (sp_X event_data)) (\<lambda>st.
    bnd (Decimal (sp_q event_data)) (\<lambda>amt.
    bnd (Decimal (sp_z event_data)) (\<lambda>fil.
    bnd (parse_spot_order_type ext (sp_o event_data)) (\<lambda>ty.
    bnd (parse_order_side (sp_S event_data)) (\<lambda>sd.
    bnd (parse_time_in_force (sp_f event_data)) (\<lambda>tif.
    bnd (py_float (sp_p event_data)) (\<lambda>pr.
    bnd (py_float (sp_L event_data)) (\<lambda>lfp.
    bnd (py_float (sp_l event_data)) (\<lambda>lf.
    bnd (Decimal (sp_q event_data)) (\<lambda>q.
    bnd (Decimal (sp_z event_data)) (\<lambda>z.
    bnd (Decimal (sp_n event_data)) (\<lambda>fe.
    bnd (Decimal (sp_Z event_data)) (\<lambda>cum.
    bnd (Decimal (sp_Y event_data)) (\<lambda>cst.
    Inr \<lparr>exchange = exchange_id self, symbol = smb, status = st,
         order_id = Some (sp_i event_data), amount = PyDecimal amt, filled = PyDecimal fil,
         client_order_id = Some (sp_c event_data), timestamp = sp_E event_data,
         order_type = Some ty, side = Some sd, time_in_force = Some tif,
         price = PyFloat pr, average = avg, last_filled_price = PyFloat lfp,
         last_filled = PyFloat lf, remaining = PyDecimal (q - z), fee = PyDecimal fe,
         fee_currency = sp_N event_data, cum_cost = PyDecimal cum, cost = PyDecimal cst,
         reduce_only = None, position_side = None\<rparr>))))))))))))))))"

subsection \<open>User-data account updates and the account snapshot\<close>

text \<open>
  The cache is a collaborator: the model records the calls \<^verbatim>\<open>_apply_balance\<close> and
  \<^verbatim>\<open>_apply_position\<close> in the order in which they are made. \<open>recompute_side\<close> is the
  \<^verbatim>\<open>if signed_amount == 0 ... else ...\<close> block, which both functions contain.
\<close>

datatype cache_op =
  ApplyBalance BinanceAccountType "Balance list" | ApplyPosition Position

definition recompute_side :: "rat \<Rightarrow> PositionSide \<Rightarrow> PositionSide option" where
  "recompute_side signed_amt sd =
    (if signed_amt = 0 then None
     else if sd = PositionSide.FLAT then
       (if 0 < signed_amt then Some PositionSide.LONG
        else if signed_amt < 0 then Some PositionSide.SHORT
        else Some sd)
     else Some sd)"

definition update_position ::
  "BinancePrivateConnector \<Rightarrow> BinanceBusinessUnit option \<Rightarrow> BinanceFuturesPositionData
    \<Rightarrow> error + Position" where
  "update_position self event_unit position =
    bnd (lookup_symbol self event_unit (pd_s position)) (\<lambda>smb.
    bnd (Decimal (pd_pa position)) (\<lambda>signed_amt.
    bnd (py_float (pd_ep position)) (\<lambda>ep.
    bnd (py_float (pd_up position)) (\<lambda>up.
    bnd (py_float (pd_cr position)) (\<lambda>cr.
    Inr \<lparr>pos_symbol = smb, pos_exchange = exchange_id self, signed_amount = signed_amt,
         pos_side = recompute_side signed_amt (parse_to_position_side (pd_ps position)),
         entry_price = ep, unrealized_pnl = up, realized_pnl = Some cr\<rparr>)))))"

definition snapshot_position ::
  "BinancePrivateConnector \<Rightarrow> BinanceFuturesPositionInfo \<Rightarrow> error + Position" where
  "snapshot_position self position =
    bnd (lookup_symbol self None (pi_symbol position)) (\<lambda>smb.
    bnd (Decimal (pi_positionAmt position)) (\<lambda>signed_amt.
    bnd (py_float (pi_entryPrice position)) (\<lambda>ep.
    bnd (py_float (pi_unrealizedProfit position)) (\<lambda>up.
    Inr \<lparr>pos_symbol = smb, pos_exchange = exchange_id self, signed_amount = signed_amt,
         pos_side = recompute_side signed_amt (parse_to_position_side (pi_positionSide position)),
         entry_price = ep, unrealized_pnl = up, realized_pnl = None\<rparr>))))"

text \<open>
  The \<^verbatim>\<open>for position in ...\<close> loop: each position is built and applied in turn; an
  exception ends the loop and leaves the positions applied so far in the cache.
\<close>

fun apply_positions :: "('p \<Rightarrow> error + Position) \<Rightarrow> 'p list \<Rightarrow> error option \<times> cache_op list" where
  "apply_positions build [] = (None, [])"
| "apply_positions build (p # ps) =
     (case build p of
        Inl e \<Rightarrow> (Some e, [])
      | Inr pos \<Rightarrow> (case apply_positions build ps of (r, ops) \<Rightarrow> (r, ApplyPosition pos # ops)))"

definition parse_account_update ::
  "BinancePrivateConnector \<Rightarrow> BinanceFuturesUpdateMsg \<Rightarrow> error option \<times> cache_op list" where
  "parse_account_update self res =
    (case au_balances res of
       Inl e \<Rightarrow> (Some e, [])
     | Inr balances \<Rightarrow>
        (case apply_positions (update_position self (au_fs res)) (au_P res) of
           (r, ops) \<Rightarrow> (r, ApplyBalance (account_type self) balances # ops)))"

datatype endpoint =
    post_api_v3_order | post_sapi_v1_margin_order | post_fapi_v1_order | post_dapi_v1_order
  | post_papi_v1_margin_order | post_papi_v1_um_order | post_papi_v1_cm_order
  | delete_api_v3_order | delete_sapi_v1_margin_order | delete_fapi_v1_order
  | delete_dapi_v1_order | delete_papi_v1_margin_order | delete_papi_v1_um_order
  | delete_papi_v1_cm_order | get_api_v3_account | get_fapi_v2_account | get_dapi_v1_account

text \<open>
  \<open>init_account_balance\<close>: \<open>get_account\<close> is the REST client. For a portfolio-margin
  account no request is made and \<^verbatim>\<open>res\<close> stays unbound.
\<close>

definition init_account_balance ::
  "(endpoint \<Rightarrow> error + BinanceAccountInfo) \<Rightarrow> BinancePrivateConnector
    \<Rightarrow> error option \<times> cache_op list" where
  "init_account_balance get_account self =
    (let a = account_type self;
         res = (if is_spot a \<or> is_isolated_margin_or_margin a then get_account get_api_v3_account
                else if is_linear a then get_account get_fapi_v2_account
                else if is_inverse a then get_account get_dapi_v1_account
                else Inl UnboundLocalError)
     in case bnd res (\<lambda>info. bnd (ai_balances info) (\<lambda>b. Inr (info, b))) of
          Inl e \<Rightarrow> (Some e, [])
        | Inr (info, balances) \<Rightarrow>
           (if is_linear a \<or> is_inverse a then
              (case apply_positions (snapshot_position self) (ai_positions info) of
                 (r, ops) \<Rightarrow> (r, ApplyBalance a balances # ops))
            else (None, [ApplyBalance a balances])))"

subsection \<open>Order submission and cancellation\<close>

text \<open>
  The REST client is a collaborator: \<open>api endpoint params\<close> is the decoded response or
  the exception of the request. Every function returns, next to its result, the list of
  requests it has sent. The rate limiter only delays a call and is left out.
\<close>

type_synonym params = "(string \<times> pyval) list"

type_synonym rest_call = "endpoint \<times> params"

fun BinanceAccountType_value :: "BinanceAccountType \<Rightarrow> string" where
  "BinanceAccountType_value SPOT = ''SPOT''"
| "BinanceAccountType_value BinanceAccountType.MARGIN = ''MARGIN''"
| "BinanceAccountType_value ISOLATED_MARGIN = ''ISOLATED_MARGIN''"
| "BinanceAccountType_value USD_M_FUTURE = ''USD_M_FUTURE''"
| "BinanceAccountType_value COIN_M_FUTURE = ''COIN_M_FUTURE''"
| "BinanceAccountType_value PORTFOLIO_MARGIN = ''PORTFOLIO_MARGIN''"
| "BinanceAccountType_value SPOT_TESTNET = ''SPOT_TESTNET''"
| "BinanceAccountType_value USD_M_FUTURE_TESTNET = ''USD_M_FUTURE_TESTNET''"
| "BinanceAccountType_value COIN_M_FUTURE_TESTNET = ''COIN_M_FUTURE_TESTNET''"

fun BinanceOrderSide_value :: "BinanceOrderSide \<Rightarrow> string" where
  "BinanceOrderSide_value BinanceOrderSide.BUY = ''BUY''"
| "BinanceOrderSide_value BinanceOrderSide.SELL = ''SELL''"

fun BinanceOrderType_value :: "BinanceOrderType \<Rightarrow> string" where
  "BinanceOrderType_value BinanceOrderType.LIMIT = ''LIMIT''"
| "BinanceOrderType_value BinanceOrderType.MARKET = ''MARKET''"
| "BinanceOrderType_value STOP = ''STOP''"
| "BinanceOrderType_value BinanceOrderType.STOP_LOSS = ''STOP_LOSS''"
| "BinanceOrderType_value STOP_LOSS_LIMIT = ''STOP_LOSS_LIMIT''"
| "BinanceOrderType_value BinanceOrderType.TAKE_PROFIT = ''TAKE_PROFIT''"
| "BinanceOrderType_value TAKE_PROFIT_LIMIT = ''TAKE_PROFIT_LIMIT''"
| "BinanceOrderType_value LIMIT_MAKER = ''LIMIT_MAKER''"
| "BinanceOrderType_value TRAILING_STOP_MARKET = ''TRAILING_STOP_MARKET''"
| "BinanceOrderType_value TAKE_PROFIT_MARKET = ''TAKE_PROFIT_MARKET''"
| "BinanceOrderType_value STOP_MARKET = ''STOP_MARKET''"

fun BinanceTimeInForce_value :: "BinanceTimeInForce \<Rightarrow> string" where
  "BinanceTimeInForce_value BinanceTimeInForce.GTC = ''GTC''"
| "BinanceTimeInForce_value BinanceTimeInForce.IOC = ''IOC''"
| "BinanceTimeInForce_value BinanceTimeInForce.FOK = ''FOK''"
| "BinanceTimeInForce_value GTX = ''GTX''"
| "BinanceTimeInForce_value GTD = ''GTD''"
| "BinanceTimeInForce_value GTE_GTC = ''GTE_GTC''"

fun BinancePositionSide_value :: "BinancePositionSide \<Rightarrow> string" where
  "BinancePositionSide_value BinancePositionSide.BOTH = ''BOTH''"
| "BinancePositionSide_value BinancePositionSide.LONG = ''LONG''"
| "BinancePositionSide_value BinancePositionSide.SHORT = ''SHORT''"

definition rest_request ::
  "(endpoint \<Rightarrow> params \<Rightarrow> error + BinanceOrderResponse) \<Rightarrow> endpoint \<Rightarrow> params
    \<Rightarrow> (error + BinanceOrderResponse option) \<times> rest_call list" where
  "rest_request api ep ps =
    ((case api ep ps of Inl e \<Rightarrow> Inl e | Inr r \<Rightarrow> Inr (Some r)), [(ep, ps)])"

definition not_supported :: "BinancePrivateConnector \<Rightarrow> string \<Rightarrow> error" where
  "not_supported self smb =
    ValueError (''BinanceAccountType.'' @ BinanceAccountType_value (account_type self)
                @ '' is not supported for '' @ smb)"

text \<open>
  \<open>execute_order_request\<close>: the result is \<open>Inr None\<close> where the Python function ends
  without a \<^verbatim>\<open>return\<close> (a portfolio-margin account and a market that is neither margin,
  linear nor inverse).
\<close>

definition execute_order_request ::
  "(endpoint \<Rightarrow> params \<Rightarrow> error + BinanceOrderResponse) \<Rightarrow> BinancePrivateConnector
    \<Rightarrow> BinanceMarket \<Rightarrow> string \<Rightarrow> params
    \<Rightarrow> (error + BinanceOrderResponse option) \<times> rest_call list" where
  "execute_order_request api self mkt smb ps =
    (let a = account_type self in
     if is_spot a then
       (if \<not> market_spot mkt then (Inl (not_supported self smb), [])
        else rest_request api post_api_v3_order ps)
     else if is_isolated_margin_or_margin a then
       (if \<not> market_margin mkt then (Inl (not_supported self smb), [])
        else rest_request api post_sapi_v1_margin_order ps)
     else if is_linear a then
       (if \<not> market_linear mkt then (Inl (not_supported self smb), [])
        else rest_request api post_fapi_v1_order ps)
     else if is_inverse a then
       (if \<not> market_inverse mkt then (Inl (not_supported self smb), [])
        else rest_request api post_dapi_v1_order ps)
     else if is_portfolio_margin a then
       (if market_margin mkt then rest_request api post_papi_v1_margin_order ps
        else if market_linear mkt then rest_request api post_papi_v1_um_order ps
        else if market_inverse mkt then rest_request api post_papi_v1_cm_order ps
        else (Inr None, []))
     else (Inr None, []))"

definition execute_cancel_order_request ::
  "(endpoint \<Rightarrow> params \<Rightarrow> error + BinanceOrderResponse) \<Rightarrow> BinancePrivateConnector
    \<Rightarrow> BinanceMarket \<Rightarrow> string \<Rightarrow> params
    \<Rightarrow> (error + BinanceOrderResponse option) \<times> rest_call list" where
  "execute_cancel_order_request api self mkt smb ps =
    (let a = account_type self in
     if is_spot a then
       (if \<not> market_spot mkt then (Inl (not_supported self smb), [])
        else rest_request api delete_api_v3_order ps)
     else if is_isolated_margin_or_margin a then
       (if \<not> market_margin mkt then (Inl (not_supported self smb), [])
        else rest_request api delete_sapi_v1_margin_order ps)
     else if is_linear a then
       (if \<not> market_linear mkt then (Inl (not_supported self smb), [])
        else rest_request api delete_fapi_v1_order ps)
     else if is_inverse a then
       (if \<not> market_inverse mkt then (Inl (not_supported self smb), [])
        else rest_request api delete_dapi_v1_order ps)
     else if is_portfolio_margin a then
       (if market_margin mkt then rest_request api delete_papi_v1_margin_order ps
        else if market_linear mkt then rest_request api delete_papi_v1_um_order ps
        else if market_inverse mkt then rest_request api delete_papi_v1_cm_order ps
        else (Inr None, []))
     else (Inr None, []))"

definition symbol_not_supported :: "string \<Rightarrow> error" where
  "symbol_not_supported smb =
    ValueError (''Symbol '' @ smb @ '' formated wrongly, or not supported'')"

text \<open>
  \<open>create_order_params\<close> is the part of \<^verbatim>\<open>create_order\<close> between the market lookup and
  the \<^verbatim>\<open>try\<close>: it builds the request parameters and raises where the source raises.
  \<^verbatim>\<open>kwargs.pop("reduceOnly", False) or kwargs.pop("reduce_only", False)\<close> pops the second
  key only when the first value is false.
\<close>

definition str_opt :: "string option \<Rightarrow> bool" where
  "str_opt s = (case s of None \<Rightarrow> False | Some t \<Rightarrow> t \<noteq> [])"

definition create_order_params ::
  "BinanceMarket \<Rightarrow> OrderSide \<Rightarrow> OrderType \<Rightarrow> rat \<Rightarrow> rat option \<Rightarrow> TimeInForce
    \<Rightarrow> PositionSide option \<Rightarrow> params \<Rightarrow> error + params" where
  "create_order_params mkt sd ty amt pr tif pside kwargs =
    bnd (to_binance_order_side sd) (\<lambda>bsd.
    bnd (to_binance_order_type ty) (\<lambda>bty.
    bnd (if ty = OrderType.LIMIT then
           (case pr of
              None \<Rightarrow> Inl (ValueError ''Price is required for  order'')
            | Some p \<Rightarrow>
               if p = 0 then Inl (ValueError ''Price is required for  order'')
               else bnd (to_binance_time_in_force tif) (\<lambda>btif.
                    Inr [(''price'', PyDecimal p),
                         (''timeInForce'', PyStr (BinanceTimeInForce_value btif))]))
         else Inr []) (\<lambda>limit_items.
    bnd (case pside of
           None \<Rightarrow> Inr []
         | Some s \<Rightarrow> bnd (to_binance_position_side s) (\<lambda>bps.
                     Inr [(''positionSide'', PyStr (BinancePositionSide_value bps))])) (\<lambda>side_items.
    (case dict_pop kwargs ''reduceOnly'' (PyBool False) of (r1, kw1) \<Rightarrow>
     (case (if truthy r1 then (r1, kw1) else dict_pop kw1 ''reduce_only'' (PyBool False)) of
        (red, kw2) \<Rightarrow>
          Inr (dict_update
                (dict_update
                  (dict_update
                    (dict_update
                      [(''symbol'', PyStr (market_id_of mkt)),
                       (''side'', PyStr (BinanceOrderSide_value bsd)),
                       (''type'', PyStr (BinanceOrderType_value bty)),
                       (''quantity'', PyDecimal amt)]
                      limit_items)
                    side_items)
                  (if truthy red then [(''reduceOnly'', PyBool True)] else []))
                kw2)))))))"

text \<open>The body of the \<^verbatim>\<open>try\<close> of \<^verbatim>\<open>create_order\<close> after the request: the PENDING order.\<close>

definition float_if_set :: "string option \<Rightarrow> error + pyval" where
  "float_if_set s =
    (if str_opt s then bnd (py_float (the s)) (\<lambda>x. Inr (PyFloat x)) else Inr PyNone)"

definition parse_position_side_if_set ::
  "BinancePositionSide option \<Rightarrow> error + PositionSide option" where
  "parse_position_side_if_set s =
    (case s of None \<Rightarrow> Inr None | Some b \<Rightarrow> bnd (parse_position_side b) (\<lambda>p. Inr (Some p)))"

definition pending_order ::
  "BinancePrivateConnector \<Rightarrow> string \<Rightarrow> OrderSide \<Rightarrow> OrderType \<Rightarrow> rat \<Rightarrow> TimeInForce
    \<Rightarrow> BinanceOrderResponse option \<Rightarrow> error + Order" where
  "pending_order self smb sd ty amt tif res =
    bnd (case res of None \<Rightarrow> Inl AttributeError | Some r \<Rightarrow> Inr r) (\<lambda>r.
    bnd (float_if_set (res_price r)) (\<lambda>pr.
    bnd (float_if_set (res_avgPrice r)) (\<lambda>avg.
    bnd (parse_position_side_if_set (res_positionSide r)) (\<lambda>pside.
    Inr ((empty_order (exchange_id self) smb OrderStatus.PENDING (res_updateTime r))
          \<lparr>order_id := Some (res_orderId r), amount := PyDecimal amt, filled := PyDecimal 0,
           client_order_id := Some (res_clientOrderId r), order_type := Some ty,
           side := Some sd, time_in_force := Some tif, price := pr, average := avg,
           remaining := PyDecimal amt,
           reduce_only := (if res_reduceOnly r = Some True then Some True else None),
           position_side := pside\<rparr>)))))"

definition failed_order ::
  "BinancePrivateConnector \<Rightarrow> int \<Rightarrow> string \<Rightarrow> OrderSide \<Rightarrow> OrderType \<Rightarrow> rat \<Rightarrow> rat option
    \<Rightarrow> TimeInForce \<Rightarrow> PositionSide option \<Rightarrow> Order" where
  "failed_order self now smb sd ty amt pr tif pside =
    (empty_order (exchange_id self) smb OrderStatus.FAILED now)
      \<lparr>order_type := Some ty, side := Some sd, amount := PyDecimal amt,
       price := (case pr of None \<Rightarrow> PyNone
                 | Some p \<Rightarrow> if p = 0 then PyNone else PyFloat (float_of_Decimal p)),
       time_in_force := Some tif, position_side := pside, filled := PyDecimal 0,
       remaining := PyDecimal amt\<rparr>"

text \<open>
  \<open>create_order\<close>: the market lookup and the parameters come before the \<^verbatim>\<open>try\<close>, so
  their exceptions leave the method; an exception of the request or of building the
  PENDING order is caught and answered with the FAILED order. \<open>now\<close> is the clock.
\<close>

definition create_order ::
  "(endpoint \<Rightarrow> params \<Rightarrow> error + BinanceOrderResponse) \<Rightarrow> int \<Rightarrow> BinancePrivateConnector
    \<Rightarrow> string \<Rightarrow> OrderSide \<Rightarrow> OrderType \<Rightarrow> rat \<Rightarrow> rat option \<Rightarrow> TimeInForce
    \<Rightarrow> PositionSide option \<Rightarrow> params \<Rightarrow> (error + Order) \<times> rest_call list" where
  "create_order api now self smb sd ty amt pr tif pside kwargs =
    (case market self smb of
       None \<Rightarrow> (Inl (symbol_not_supported smb), [])
     | Some mkt \<Rightarrow>
        (case create_order_params mkt sd ty amt pr tif pside kwargs of
           Inl e \<Rightarrow> (Inl e, [])
         | Inr ps \<Rightarrow>
            (case execute_order_request api self mkt smb ps of (res, calls) \<Rightarrow>
              (case bnd res (pending_order self smb sd ty amt tif) of
                 Inr order \<Rightarrow> (Inr order, calls)
               | Inl e \<Rightarrow> (Inr (failed_order self now smb sd ty amt pr tif pside), calls)))))"

text \<open>
  \<open>cancel_order\<close>. \<open>cancel_order_try\<close> is the body of the \<^verbatim>\<open>try\<close>; next to its result
  and its requests it returns the local variables that the handler reads: \<^verbatim>\<open>symbol\<close>,
  which is the native id once the market was found, and \<^verbatim>\<open>params\<close>, which is unbound
  (\<open>None\<close>) until the dict is built. The handler formats \<^verbatim>\<open>params\<close> into its log line
  before it builds the FAILED order, and reading an unbound local raises.
\<close>

definition canceling_order ::
  "BinancePrivateConnector \<Rightarrow> string \<Rightarrow> BinanceOrderResponse option \<Rightarrow> error + Order" where
  "canceling_order self smb res =
    bnd (case res of None \<Rightarrow> Inl AttributeError | Some r \<Rightarrow> Inr r) (\<lambda>r.
    bnd (Decimal (res_executedQty r)) (\<lambda>fil.
    bnd (case res_type r of None \<Rightarrow> Inr None
         | Some t \<Rightarrow> bnd (parse_order_type t) (\<lambda>x. Inr (Some x))) (\<lambda>ty.
    bnd (case res_side r of None \<Rightarrow> Inr None
         | Some t \<Rightarrow> bnd (parse_order_side t) (\<lambda>x. Inr (Some x))) (\<lambda>sd.
    bnd (case res_timeInForce r of None \<Rightarrow> Inr None
         | Some t \<Rightarrow> bnd (parse_time_in_force t) (\<lambda>x. Inr (Some x))) (\<lambda>tif.
    bnd (Decimal (res_origQty r)) (\<lambda>q.
    bnd (Decimal (res_executedQty r)) (\<lambda>z.
    bnd (parse_position_side_if_set (res_positionSide r)) (\<lambda>pside.
    Inr ((empty_order (exchange_id self) smb OrderStatus.CANCELING (res_updateTime r))
          \<lparr>order_id := Some (res_orderId r), amount := PyStr (res_origQty r),
           filled := PyDecimal fil, client_order_id := Some (res_clientOrderId r),
           order_type := ty, side := sd, time_in_force := tif,
           price := (case res_price r of None \<Rightarrow> PyNone | Some s \<Rightarrow> PyStr s),
           average := (case res_avgPrice r of None \<Rightarrow> PyNone | Some s \<Rightarrow> PyStr s),
           remaining := PyDecimal (q - z), reduce_only := res_reduceOnly r,
           position_side := pside\<rparr>)))))))))"

definition cancel_order_try ::
  "(endpoint \<Rightarrow> params \<Rightarrow> error + BinanceOrderResponse) \<Rightarrow> BinancePrivateConnector
    \<Rightarrow> string \<Rightarrow> int \<Rightarrow> params
    \<Rightarrow> (error + Order) \<times> rest_call list \<times> string \<times> params option" where
  "cancel_order_try api self smb oid kwargs =
    (case market self smb of
       None \<Rightarrow> (Inl (symbol_not_supported smb), [], smb, None)
     | Some mkt \<Rightarrow>
        (let native = market_id_of mkt;
             ps = dict_update [(''symbol'', PyStr native), (''order_id'', PyInt oid)] kwargs
         in case execute_cancel_order_request api self mkt native ps of (res, calls) \<Rightarrow>
              (bnd res (canceling_order self native), calls, native, Some ps)))"

definition cancel_order ::
  "(endpoint \<Rightarrow> params \<Rightarrow> error + BinanceOrderResponse) \<Rightarrow> int \<Rightarrow> BinancePrivateConnector
    \<Rightarrow> string \<Rightarrow> int \<Rightarrow> params \<Rightarrow> (error + Order) \<times> rest_call list" where
  "cancel_order api now self smb oid kwargs =
    (case cancel_order_try api self smb oid kwargs of
       (Inr order, calls, _, _) \<Rightarrow> (Inr order, calls)
     | (Inl e, calls, smb', ps) \<Rightarrow>
        (case ps of
           None \<Rightarrow> (Inl UnboundLocalError, calls)
         | Some _ \<Rightarrow>
            (Inr ((empty_order (exchange_id self) smb' OrderStatus.FAILED now)
                   \<lparr>order_id := Some oid\<rparr>), calls)))"

section \<open>Binance execution management system (exchange/binance/ems.py)\<close>

text \<open>
  \<open>InstrumentId\<close> is read through its three properties only; they are taken as given
  fields, so nothing is assumed about how they exclude each other.
\<close>

datatype ExchangeType = BINANCE | BYBIT | OKX

record InstrumentId =
  id_symbol :: string
  id_exchange :: ExchangeType
  id_is_spot :: bool
  id_is_linear :: bool
  id_is_inverse :: bool

definition BINANCE_SPOT_PRIORITY :: "BinanceAccountType list" where
  "BINANCE_SPOT_PRIORITY = [ISOLATED_MARGIN, BinanceAccountType.MARGIN, SPOT_TESTNET, SPOT]"

text \<open>
  The four account-type attributes of the EMS, \<open>None\<close> after \<^verbatim>\<open>__init__\<close>. The keys of
  \<^verbatim>\<open>_private_connectors\<close> are passed to \<open>set_account_type\<close> as a list.
\<close>

record BinanceAccountTypes =
  binance_spot_account_type :: "BinanceAccountType option"
  binance_linear_account_type :: "BinanceAccountType option"
  binance_inverse_account_type :: "BinanceAccountType option"
  binance_pm_account_type :: "BinanceAccountType option"

definition init_account_types :: BinanceAccountTypes where
  "init_account_types =
    \<lparr>binance_spot_account_type = None, binance_linear_account_type = None,
     binance_inverse_account_type = None, binance_pm_account_type = None\<rparr>"

text \<open>The \<^verbatim>\<open>for ... break\<close> loop over the priority list: the first member that is configured.\<close>

fun first_configured ::
  "BinanceAccountType list \<Rightarrow> BinanceAccountType list \<Rightarrow> BinanceAccountType option
    \<Rightarrow> BinanceAccountType option" where
  "first_configured [] account_types cur = cur"
| "first_configured (a # prio) account_types cur =
     (if a \<in> set account_types then Some a else first_configured prio account_types cur)"

definition set_account_type ::
  "BinanceAccountType list \<Rightarrow> BinanceAccountTypes \<Rightarrow> BinanceAccountTypes" where
  "set_account_type account_types ems =
    (if PORTFOLIO_MARGIN \<in> set account_types
     then ems\<lparr>binance_pm_account_type := Some PORTFOLIO_MARGIN\<rparr>
     else ems\<lparr>
       binance_spot_account_type :=
         first_configured BINANCE_SPOT_PRIORITY account_types (binance_spot_account_type ems),
       binance_linear_account_type :=
         Some (if USD_M_FUTURE_TESTNET \<in> set account_types
               then USD_M_FUTURE_TESTNET else USD_M_FUTURE),
       binance_inverse_account_type :=
         Some (if COIN_M_FUTURE_TESTNET \<in> set account_types
               then COIN_M_FUTURE_TESTNET else COIN_M_FUTURE)\<rparr>)"

definition instrument_id_to_account_type ::
  "BinanceAccountTypes \<Rightarrow> InstrumentId \<Rightarrow> BinanceAccountType option" where
  "instrument_id_to_account_type ems instrument_id =
    (if binance_pm_account_type ems \<noteq> None then binance_pm_account_type ems
     else if id_is_spot instrument_id then binance_spot_account_type ems
     else if id_is_linear instrument_id then binance_linear_account_type ems
     else if id_is_inverse instrument_id then binance_inverse_account_type ems
     else None)"

text \<open>
  \<open>get_min_order_amount\<close>. The level-1 book comes from the cache and
  \<^verbatim>\<open>_amount_to_precision\<close> from the base class; both are outside the sources at hand and
  are passed in. Of the book only \<^verbatim>\<open>mid\<close> is read. A symbol without a cached book gives
  None, and reading \<^verbatim>\<open>mid\<close> of None is an AttributeError. \<open>float_1_1\<close> is the literal
  \<^verbatim>\<open>1.1\<close>.
\<close>

datatype rounding_mode = mode_round | mode_ceil | mode_floor

record BookL1 =
  mid :: pyfloat

definition float_1_1 :: pyfloat where
  "float_1_1 = round_ratio 11 10"

definition get_min_order_amount ::
  "(string \<Rightarrow> pyfloat \<Rightarrow> rounding_mode \<Rightarrow> error + rat) \<Rightarrow> (string \<Rightarrow> BookL1 option)
    \<Rightarrow> string \<Rightarrow> BinanceMarket \<Rightarrow> error + rat" where
  "get_min_order_amount amount_to_precision bookl1 smb mkt =
    (case bookl1 smb of
       None \<Rightarrow> Inl AttributeError
     | Some book \<Rightarrow>
        (let cost_min = float_mul (limits_cost_min mkt) float_1_1;
             amount_min = limits_amount_min mkt
         in bnd (float_truediv cost_min (mid book)) (\<lambda>q.
            amount_to_precision smb (float_max q amount_min) mode_ceil)))"

section \<open>Order submission by the strategy (strategy.py)\<close>

datatype SubmitType =
    CREATE | CANCEL | STOP_LOSS | TAKE_PROFIT | TWAP | ADP_MAKER | CANCEL_TWAP
  | CANCEL_ADP_MAKER

text \<open>
  \<open>OrderSubmit\<close> with the fields that the two algo constructors pass; it is a plain
  struct, built without any check of its own.
\<close>

record OrderSubmit =
  os_symbol :: string
  os_instrument_id :: InstrumentId
  os_uuid :: string
  os_submit_type :: SubmitType
  os_side :: OrderSide
  os_amount :: rat
  os_duration :: int
  os_wait :: int
  os_check_interval :: pyfloat
  os_position_side :: "PositionSide option"
  os_trigger_tp_ratio :: "pyfloat option"
  os_trigger_sl_ratio :: "pyfloat option"
  os_tp_ratio :: "pyfloat option"
  os_sl_ratio :: "pyfloat option"
  os_kwargs :: params

text \<open>
  The EMS of an exchange as the strategy sees it: the account-type attributes and one
  queue per account type. \<open>submit_order\<close> is \<^verbatim>\<open>_submit_order\<close> of the Binance EMS:
  an explicit account type wins, and a missing queue is a KeyError.
\<close>

record ExecutionManagementSystem =
  account_types :: BinanceAccountTypes
  order_submit_queues :: "BinanceAccountType \<rightharpoonup> OrderSubmit list"

definition build_order_submit_queues ::
  "BinanceAccountType list \<Rightarrow> ExecutionManagementSystem \<Rightarrow> ExecutionManagementSystem" where
  "build_order_submit_queues private_connectors ems =
    ems\<lparr>order_submit_queues :=
      (\<lambda>a. if a \<in> set private_connectors then Some [] else order_submit_queues ems a)\<rparr>"

definition submit_order ::
  "ExecutionManagementSystem \<Rightarrow> OrderSubmit \<Rightarrow> BinanceAccountType option
    \<Rightarrow> error + ExecutionManagementSystem" where
  "submit_order ems order acct =
    (let a = (case acct of
                None \<Rightarrow> instrument_id_to_account_type (account_types ems) (os_instrument_id order)
              | Some t \<Rightarrow> Some t)
     in case a of
          None \<Rightarrow> Inl KeyError
        | Some t \<Rightarrow>
           (case order_submit_queues ems t of
              None \<Rightarrow> Inl KeyError
            | Some q \<Rightarrow> Inr (ems\<lparr>order_submit_queues := (order_submit_queues ems)(t \<mapsto> q @ [order])\<rparr>)))"

text \<open>
  The strategy holds one EMS per exchange. \<^verbatim>\<open>InstrumentId.from_str\<close> and the fresh
  \<^verbatim>\<open>UUID4().value\<close> are passed in. Each constructor returns the uuid or the exception,
  and the EMS table after the call.
\<close>

type_synonym Strategy = "ExchangeType \<rightharpoonup> ExecutionManagementSystem"

definition enqueue ::
  "Strategy \<Rightarrow> OrderSubmit \<Rightarrow> BinanceAccountType option \<Rightarrow> (error + string) \<times> Strategy" where
  "enqueue ems_table order acct =
    (case ems_table (id_exchange (os_instrument_id order)) of
       None \<Rightarrow> (Inl KeyError, ems_table)
     | Some ems \<Rightarrow>
        (case submit_order ems order acct of
           Inl e \<Rightarrow> (Inl e, ems_table)
         | Inr ems' \<Rightarrow>
            (Inr (os_uuid order),
             ems_table(id_exchange (os_instrument_id order) \<mapsto> ems'))))"

definition create_adp_maker ::
  "(string \<Rightarrow> error + InstrumentId) \<Rightarrow> string \<Rightarrow> Strategy \<Rightarrow> string \<Rightarrow> OrderSide \<Rightarrow> rat
    \<Rightarrow> int \<Rightarrow> int \<Rightarrow> pyfloat \<Rightarrow> PositionSide option \<Rightarrow> BinanceAccountType option
    \<Rightarrow> pyfloat option \<Rightarrow> pyfloat option \<Rightarrow> pyfloat option \<Rightarrow> pyfloat option \<Rightarrow> params
    \<Rightarrow> (error + string) \<times> Strategy" where
  "create_adp_maker from_str uuid4 ems_table smb sd amt duration wait check_interval pside
     acct trigger_tp trigger_sl tp sl kwargs =
    (if wait > duration then (Inl (OrderError ''wait must be less than duration''), ems_table)
     else
       (case from_str smb of
          Inl e \<Rightarrow> (Inl e, ems_table)
        | Inr iid \<Rightarrow>
           enqueue ems_table
             \<lparr>os_symbol = smb, os_instrument_id = iid, os_uuid = ''ALGO-'' @ uuid4,
              os_submit_type = SubmitType.ADP_MAKER, os_side = sd, os_amount = amt,
              os_duration = duration, os_wait = wait, os_check_interval = check_interval,
              os_position_side = pside, os_trigger_tp_ratio = trigger_tp,
              os_trigger_sl_ratio = trigger_sl, os_tp_ratio = tp, os_sl_ratio = sl,
              os_kwargs = kwargs\<rparr> acct))"

definition create_twap ::
  "(string \<Rightarrow> error + InstrumentId) \<Rightarrow> string \<Rightarrow> Strategy \<Rightarrow> string \<Rightarrow> OrderSide \<Rightarrow> rat
    \<Rightarrow> int \<Rightarrow> int \<Rightarrow> pyfloat \<Rightarrow> PositionSide option \<Rightarrow> BinanceAccountType option
    \<Rightarrow> params \<Rightarrow> (error + string) \<times> Strategy" where
  "create_twap from_str uuid4 ems_table smb sd amt duration wait check_interval pside
     acct kwargs =
    (case from_str smb of
       Inl e \<Rightarrow> (Inl e, ems_table)
     | Inr iid \<Rightarrow>
        enqueue ems_table
          \<lparr>os_symbol = smb, os_instrument_id = iid, os_uuid = ''ALGO-'' @ uuid4,
           os_submit_type = SubmitType.TWAP, os_side = sd, os_amount = amt,
           os_duration = duration, os_wait = wait, os_check_interval = check_interval,
           os_position_side = pside, os_trigger_tp_ratio = None,
           os_trigger_sl_ratio = None, os_tp_ratio = None, os_sl_ratio = None,
           os_kwargs = kwargs\<rparr> acct)"

section \<open>Example inputs\<close>

text \<open>
  A USD-M futures connector that knows one linear market, order-type properties in
  which MARKET is the market type and LIMIT the limit type, and an order-trade-update
  event with the given last fill \<open>l\<close>, average price \<open>ap\<close>, cumulative fill \<open>z\<close> and
  order type.
\<close>

definition example_ext :: BinanceOrderTypeExt where
  "example_ext =
    \<lparr>type_is_market = (\<lambda>t. t = BinanceOrderType.MARKET),
     type_is_limit = (\<lambda>t. t = BinanceOrderType.LIMIT),
     parse_futures_order_type = parse_order_type,
     parse_spot_order_type = parse_order_type\<rparr>"

definition example_market :: BinanceMarket where
  "example_market =
    \<lparr>market_id_of = ''BTCUSDT'', market_spot = False, market_margin = False,
     market_linear = True, market_inverse = False,
     limits_cost_min = round_ratio 10 1, limits_amount_min = round_ratio 1 1000\<rparr>"

definition example_connector :: BinancePrivateConnector where
  "example_connector =
    \<lparr>account_type = USD_M_FUTURE,
     market = [''BTC/USDT:USDT'' \<mapsto> example_market],
     market_id = [''BTCUSDT_linear'' \<mapsto> ''BTC/USDT:USDT''],
     exchange_id = ''binance''\<rparr>"

definition example_fill ::
  "string \<Rightarrow> string \<Rightarrow> string \<Rightarrow> BinanceOrderType \<Rightarrow> BinanceFuturesOrderUpdateMsg" where
  "example_fill l ap z ty =
    \<lparr>fu_E = 1700000000000, fu_fs = None,
     fu_o = \<lparr>fo_s = ''BTCUSDT'', fo_c = ''c1'', fo_S = BinanceOrderSide.BUY, fo_o = ty,
             fo_f = BinanceTimeInForce.GTC, fo_q = ''2'', fo_p = ''105'', fo_ap = ap,
             fo_X = BinanceOrderStatus.PARTIALLY_FILLED, fo_i = 7, fo_l = l, fo_z = z,
             fo_L = ''100'', fo_n = ''0'', fo_N = Some ''USDT'', fo_R = False,
             fo_ps = BinancePositionSide.BOTH\<rparr>\<rparr>"

definition example_report :: "string \<Rightarrow> string \<Rightarrow> BinanceSpotOrderUpdateMsg" where
  "example_report z Z =
    \<lparr>sp_s = ''BTCUSDT'', sp_c = ''c2'', sp_S = BinanceOrderSide.SELL,
     sp_o = BinanceOrderType.LIMIT, sp_f = BinanceTimeInForce.GTC, sp_q = ''4'',
     sp_p = ''50'', sp_X = BinanceOrderStatus.NEW, sp_i = 8, sp_l = ''0'', sp_z = z,
     sp_L = ''0'', sp_n = ''0'', sp_N = None, sp_Z = Z, sp_Y = ''0'',
     sp_E = 1700000000000\<rparr>"

definition example_spot_connector :: BinancePrivateConnector where
  "example_spot_connector =
    \<lparr>account_type = SPOT,
     market = [''BTC/USDT'' \<mapsto> example_market\<lparr>market_spot := True, market_linear := False\<rparr>],
     market_id = [''BTCUSDT_spot'' \<mapsto> ''BTC/USDT''],
     exchange_id = ''binance''\<rparr>"

definition example_response :: BinanceOrderResponse where
  "example_response =
    \<lparr>res_orderId = 42, res_clientOrderId = ''c3'', res_updateTime = 1700000000001,
     res_price = Some ''105'', res_avgPrice = Some ''0'', res_origQty = ''2'',
     res_executedQty = ''0'', res_type = Some BinanceOrderType.LIMIT,
     res_side = Some BinanceOrderSide.BUY, res_timeInForce = Some BinanceTimeInForce.GTC,
     res_reduceOnly = Some False, res_positionSide = Some BinancePositionSide.BOTH\<rparr>"

definition example_instrument :: InstrumentId where
  "example_instrument =
    \<lparr>id_symbol = ''BTCUSDT-PERP'', id_exchange = BINANCE, id_is_spot = False,
     id_is_linear = True, id_is_inverse = False\<rparr>"

definition example_strategy :: Strategy where
  "example_strategy =
    [BINANCE \<mapsto> build_order_submit_queues [USD_M_FUTURE]
       \<lparr>account_types = set_account_type [USD_M_FUTURE] init_account_types,
        order_submit_queues = Map.empty\<rparr>]"

definition example_position :: "string \<Rightarrow> BinancePositionSide \<Rightarrow> BinanceFuturesPositionData" where
  "example_position pa ps =
    \<lparr>pd_s = ''BTCUSDT'', pd_pa = pa, pd_ps = ps, pd_ep = ''100'', pd_up = ''0'',
     pd_cr = ''0''\<rparr>"

definition example_position_info ::
  "string \<Rightarrow> BinancePositionSide \<Rightarrow> BinanceFuturesPositionInfo" where
  "example_position_info pa ps =
    \<lparr>pi_symbol = ''BTCUSDT'', pi_positionAmt = pa, pi_positionSide = ps,
     pi_entryPrice = ''100'', pi_unrealizedProfit = ''0''\<rparr>"

definition example_api :: "endpoint \<Rightarrow> params \<Rightarrow> error + BinanceOrderResponse" where
  "example_api ep ps = Inr example_response"

definition failing_api :: "endpoint \<Rightarrow> params \<Rightarrow> error + BinanceOrderResponse" where
  "failing_api ep ps = Inl (RestError 503)"

definition example_account_update :: "string \<Rightarrow> BinanceFuturesUpdateMsg" where
  "example_account_update pa =
    \<lparr>au_fs = None, au_balances = Inr [],
     au_P = [example_position pa BinancePositionSide.BOTH]\<rparr>"

definition example_account_info :: "string \<Rightarrow> endpoint \<Rightarrow> error + BinanceAccountInfo" where
  "example_account_info pa ep =
    Inr \<lparr>ai_balances = Inr [],
         ai_positions = [example_position_info pa BinancePositionSide.BOTH]\<rparr>"

definition example_book :: "string \<Rightarrow> BookL1 option" where
  "example_book smb = (if smb = ''BTC/USDT:USDT'' then Some \<lparr>mid = round_ratio 2 1\<rparr> else None)"

definition example_precision :: "string \<Rightarrow> pyfloat \<Rightarrow> rounding_mode \<Rightarrow> error + rat" where
  "example_precision smb x m = Inr (float_value x)"

definition example_from_str :: "string \<Rightarrow> error + InstrumentId" where
  "example_from_str s = Inr example_instrument"



section \<open>Properties of the enum parsers\<close>

lemmas binance_enum_parser_defs =
  dict_getitem_def dict_inverse_def
  binance_order_status_map_def binance_position_side_map_def binance_order_side_map_def
  binance_order_time_in_force_map_def binance_order_type_map_def
  order_status_to_binance_map_def position_side_to_binance_map_def
  order_side_to_binance_map_def time_in_force_to_binance_map_def order_type_to_binance_map_def
  parse_order_status_def parse_position_side_def parse_order_side_def
  parse_time_in_force_def parse_order_type_def
  to_binance_order_status_def to_binance_position_side_def to_binance_order_side_def
  to_binance_time_in_force_def to_binance_order_type_def


lemmas okx_enum_parser_defs =
  dict_getitem_def dict_inverse_def
  okx_kline_interval_map_def okx_order_status_map_def okx_position_side_map_def
  okx_order_side_map_def order_status_to_okx_map_def position_side_to_okx_map_def
  order_side_to_okx_map_def kline_interval_to_okx_map_def
  okx_parse_kline_interval_def okx_parse_order_status_def okx_parse_position_side_def
  okx_parse_order_side_def to_okx_order_status_def to_okx_position_side_def
  to_okx_order_side_def to_okx_order_type_def to_okx_kline_interval_def


lemma binance_order_status_round_trip:
  "to_binance_order_status s = Inr n \<Longrightarrow> parse_order_status n = Inr s"
  by (cases s) (auto simp: binance_enum_parser_defs)

lemma binance_position_side_round_trip:
  "to_binance_position_side s = Inr n \<Longrightarrow> parse_position_side n = Inr s"
  by (cases s) (auto simp: binance_enum_parser_defs)

lemma binance_order_side_round_trip:
  "to_binance_order_side s = Inr n \<Longrightarrow> parse_order_side n = Inr s"
  by (cases s) (auto simp: binance_enum_parser_defs)

lemma binance_time_in_force_round_trip:
  "to_binance_time_in_force s = Inr n \<Longrightarrow> parse_time_in_force n = Inr s"
  by (cases s) (auto simp: binance_enum_parser_defs)

lemma binance_order_type_round_trip:
  "to_binance_order_type s = Inr n \<Longrightarrow> parse_order_type n = Inr s"
  by (cases s) (auto simp: binance_enum_parser_defs)

lemma okx_order_status_round_trip:
  "to_okx_order_status s = Inr n \<Longrightarrow> okx_parse_order_status n = Inr s"
  by (cases s) (auto simp: okx_enum_parser_defs)

lemma okx_position_side_round_trip:
  "to_okx_position_side s = Inr n \<Longrightarrow> okx_parse_position_side n = Inr (Some s)"
  by (cases s) (auto simp: okx_enum_parser_defs)

lemma okx_order_side_round_trip:
  "to_okx_order_side s = Inr n \<Longrightarrow> okx_parse_order_side n = Inr s"
  by (cases s) (auto simp: okx_enum_parser_defs)

lemma okx_kline_interval_round_trip:
  "to_okx_kline_interval s = Inr n \<Longrightarrow> okx_parse_kline_interval n = Inr s"
  by (cases s) (auto simp: okx_enum_parser_defs)

lemma okx_order_type_round_trip:
  "to_okx_order_type ot tif = Inr n \<Longrightarrow> okx_parse_order_type n = Inr ot"
  by (cases ot; cases tif) (auto simp: to_okx_order_type_def)

lemma okx_limit_time_in_force_round_trip:
  "to_okx_order_type ot tif = Inr n \<Longrightarrow> ot = OrderType.LIMIT \<Longrightarrow>
     okx_parse_time_in_force n = Inr tif"
  by (cases tif) (auto simp: to_okx_order_type_def)

lemma okx_market_time_in_force:
  "to_okx_order_type ot tif = Inr n \<Longrightarrow> ot = OrderType.MARKET \<Longrightarrow>
     okx_parse_time_in_force n = Inr TimeInForce.GTC"
  by (auto simp: to_okx_order_type_def)




section \<open>Properties of the account-type routing\<close>

lemma first_configured_priority:
  "first_configured BINANCE_SPOT_PRIORITY accts None =
    (if ISOLATED_MARGIN \<in> set accts then Some ISOLATED_MARGIN
     else if BinanceAccountType.MARGIN \<in> set accts then Some BinanceAccountType.MARGIN
     else if SPOT_TESTNET \<in> set accts then Some SPOT_TESTNET
     else if SPOT \<in> set accts then Some SPOT
     else None)"
  by (simp add: BINANCE_SPOT_PRIORITY_def)

text \<open>
  Claim C8. After \<open>set_account_type\<close> on a freshly constructed EMS: if a
  portfolio-margin connector is configured, every instrument is routed to
  PORTFOLIO_MARGIN, whatever its kind. Otherwise a spot instrument is routed to the first
  configured account type in the order isolated margin, margin, spot testnet, spot; a
  linear instrument to USD_M_FUTURE_TESTNET when that is configured and to USD_M_FUTURE
  when not; an inverse instrument likewise to COIN_M_FUTURE_TESTNET or COIN_M_FUTURE.
\<close>

theorem account_type_routing:
  "(PORTFOLIO_MARGIN \<in> set accts \<longrightarrow>
      instrument_id_to_account_type (set_account_type accts init_account_types) i
        = Some PORTFOLIO_MARGIN) \<and>
   (PORTFOLIO_MARGIN \<notin> set accts \<and> id_is_spot i \<longrightarrow>
      instrument_id_to_account_type (set_account_type accts init_account_types) i
        = (if ISOLATED_MARGIN \<in> set accts then Some ISOLATED_MARGIN
           else if BinanceAccountType.MARGIN \<in> set accts then Some BinanceAccountType.MARGIN
           else if SPOT_TESTNET \<in> set accts then Some SPOT_TESTNET
           else if SPOT \<in> set accts then Some SPOT
           else None)) \<and>
   (PORTFOLIO_MARGIN \<notin> set accts \<and> \<not> id_is_spot i \<and> id_is_linear i \<longrightarrow>
      instrument_id_to_account_type (set_account_type accts init_account_types) i
        = Some (if USD_M_FUTURE_TESTNET \<in> set accts
                then USD_M_FUTURE_TESTNET else USD_M_FUTURE)) \<and>
   (PORTFOLIO_MARGIN \<notin> set accts \<and> \<not> id_is_spot i \<and> \<not> id_is_linear i \<and> id_is_inverse i \<longrightarrow>
      instrument_id_to_account_type (set_account_type accts init_account_types) i
        = Some (if COIN_M_FUTURE_TESTNET \<in> set accts
                then COIN_M_FUTURE_TESTNET else COIN_M_FUTURE))"
  using first_configured_priority [of accts]
  by (simp add: instrument_id_to_account_type_def set_account_type_def init_account_types_def)

theorem account_type_routing_witness:
  "instrument_id_to_account_type
     (set_account_type [SPOT, PORTFOLIO_MARGIN] init_account_types)
     \<lparr>id_symbol = ''BTCUSDT'', id_exchange = BINANCE, id_is_spot = False,
      id_is_linear = True, id_is_inverse = False\<rparr> = Some PORTFOLIO_MARGIN \<and>
   instrument_id_to_account_type
     (set_account_type [SPOT, BinanceAccountType.MARGIN, USD_M_FUTURE] init_account_types)
     \<lparr>id_symbol = ''BTCUSDT'', id_exchange = BINANCE, id_is_spot = True,
      id_is_linear = False, id_is_inverse = False\<rparr> = Some BinanceAccountType.MARGIN \<and>
   instrument_id_to_account_type
     (set_account_type [SPOT, USD_M_FUTURE, USD_M_FUTURE_TESTNET] init_account_types)
     \<lparr>id_symbol = ''BTCUSDT'', id_exchange = BINANCE, id_is_spot = False,
      id_is_linear = True, id_is_inverse = False\<rparr> = Some USD_M_FUTURE_TESTNET \<and>
   instrument_id_to_account_type
     (set_account_type [SPOT] init_account_types)
     \<lparr>id_symbol = ''BTCUSD'', id_exchange = BINANCE, id_is_spot = False,
      id_is_linear = False, id_is_inverse = True\<rparr> = Some COIN_M_FUTURE"
  using
    account_type_routing [of "[SPOT, PORTFOLIO_MARGIN]"
      "\<lparr>id_symbol = ''BTCUSDT'', id_exchange = BINANCE, id_is_spot = False,
        id_is_linear = True, id_is_inverse = False\<rparr>"]
    account_type_routing [of "[SPOT, BinanceAccountType.MARGIN, USD_M_FUTURE]"
      "\<lparr>id_symbol = ''BTCUSDT'', id_exchange = BINANCE, id_is_spot = True,
        id_is_linear = False, id_is_inverse = False\<rparr>"]
    account_type_routing [of "[SPOT, USD_M_FUTURE, USD_M_FUTURE_TESTNET]"
      "\<lparr>id_symbol = ''BTCUSDT'', id_exchange = BINANCE, id_is_spot = False,
        id_is_linear = True, id_is_inverse = False\<rparr>"]
    account_type_routing [of "[SPOT]"
      "\<lparr>id_symbol = ''BTCUSD'', id_exchange = BINANCE, id_is_spot = False,
        id_is_linear = False, id_is_inverse = True\<rparr>"]
  by simp

section \<open>Properties of the user-data parsers\<close>

lemma bnd_eq_Inr: "(bnd m f = Inr y) = (\<exists>x. m = Inr x \<and> f x = Inr y)"
  by (cases m) auto

lemma bnd_eq_Inl: "(bnd m f = Inl e) = (m = Inl e \<or> (\<exists>x. m = Inr x \<and> f x = Inl e))"
  by (cases m) auto

lemma order_trade_update_fields:
  assumes "parse_order_trade_update ext self res = Inr ord"
  shows "\<exists>q z avg c. Decimal (fo_q (fu_o res)) = Inr q \<and> Decimal (fo_z (fu_o res)) = Inr z \<and>
           py_float (fo_ap (fu_o res)) = Inr avg \<and>
           order_costs ext (fu_o res) = Inr (Some c) \<and>
           amount ord = PyDecimal q \<and> filled ord = PyDecimal z \<and>
           remaining ord = PyDecimal (q - z) \<and> average ord = PyFloat avg \<and>
           cost ord = PyDecimal (fst c) \<and> cum_cost ord = PyDecimal (snd c)"
  using assms
  by (auto simp: parse_order_trade_update_def Let_def bnd_eq_Inr split: option.splits)

lemma execution_report_fields:
  assumes "parse_execution_report ext self ev = Inr ord"
  shows "\<exists>q z avg. Decimal (sp_q ev) = Inr q \<and> Decimal (sp_z ev) = Inr z \<and>
           spot_average ev = Inr avg \<and>
           amount ord = PyDecimal q \<and> filled ord = PyDecimal z \<and>
           remaining ord = PyDecimal (q - z) \<and> average ord = avg"
  using assms
  by (auto simp: parse_execution_report_def Let_def bnd_eq_Inr)

lemma order_costs_market:
  "type_is_market ext (fo_o d) \<Longrightarrow> order_costs ext d = Inr (Some c) \<Longrightarrow>
     \<exists>l ap z. Decimal (fo_l d) = Inr l \<and> Decimal (fo_ap d) = Inr ap \<and> Decimal (fo_z d) = Inr z \<and>
       c = (l * ap, z * ap)"
  by (auto simp: order_costs_def bnd_eq_Inr)

lemma order_costs_limit:
  "\<not> type_is_market ext (fo_o d) \<Longrightarrow> type_is_limit ext (fo_o d) \<Longrightarrow>
   order_costs ext d = Inr (Some c) \<Longrightarrow>
     \<exists>l ap z. Decimal (fo_l d) = Inr l \<and> Decimal (fo_ap d) = Inr ap \<and> Decimal (fo_z d) = Inr z \<and>
       (ap \<noteq> 0 \<longrightarrow> c = (l * ap, z * ap)) \<and>
       (ap = 0 \<longrightarrow> (\<exists>p. Decimal (fo_p d) = Inr p \<and> c = (l * p, z * p)))"
  by (auto simp: order_costs_def bnd_eq_Inr split: if_splits)

lemma Decimal_empty: "Decimal [] = Inl InvalidOperation"
  by (simp add: Decimal_def parse_numeral_def split_sign_def)

lemma order_costs_limit_empty_ap:
  "\<not> type_is_market ext (fo_o d) \<Longrightarrow> type_is_limit ext (fo_o d) \<Longrightarrow> fo_ap d = [] \<Longrightarrow>
     order_costs ext d = Inl InvalidOperation"
  by (simp add: order_costs_def Decimal_empty)

lemma spot_average_cases:
  "spot_average ev = Inr avg \<Longrightarrow>
     \<exists>z. py_float (sp_z ev) = Inr z \<and>
       (float_is_zero z \<longrightarrow> avg = PyNone) \<and>
       (\<not> float_is_zero z \<longrightarrow>
          (\<exists>Z a. py_float (sp_Z ev) = Inr Z \<and> float_truediv Z z = Inr a \<and> avg = PyFloat a))"
  by (auto simp: spot_average_def bnd_eq_Inr split: if_splits)

lemma recompute_side_flat:
  "recompute_side a PositionSide.FLAT =
     (if a = 0 then None else if 0 < a then Some PositionSide.LONG else Some PositionSide.SHORT)"
  by (auto simp: recompute_side_def)

lemma apply_positions_mem:
  "apply_positions build ps = (r, ops) \<Longrightarrow> op \<in> set ops \<Longrightarrow>
     \<exists>p \<in> set ps. \<exists>pos. build p = Inr pos \<and> op = ApplyPosition pos"
  by (induction ps arbitrary: r ops) (auto split: sum.splits prod.splits)

lemma update_position_side:
  "update_position self u p = Inr pos \<Longrightarrow>
     Decimal (pd_pa p) = Inr (signed_amount pos) \<and>
     pos_side pos = recompute_side (signed_amount pos) (parse_to_position_side (pd_ps p))"
  by (auto simp: update_position_def bnd_eq_Inr)

lemma snapshot_position_side:
  "snapshot_position self p = Inr pos \<Longrightarrow>
     Decimal (pi_positionAmt p) = Inr (signed_amount pos) \<and>
     pos_side pos = recompute_side (signed_amount pos) (parse_to_position_side (pi_positionSide p))"
  by (auto simp: snapshot_position_def bnd_eq_Inr)

lemma create_adp_maker_wait_exceeds_duration:
  "wait > duration \<Longrightarrow>
     create_adp_maker from_str uuid4 ems_table smb sd amt duration wait ci pside acct
       ttp tsl tp sl kwargs = (Inl (OrderError ''wait must be less than duration''), ems_table)"
  by (simp add: create_adp_maker_def)


lemmas number_defs =
  Decimal_def py_float_def parse_numeral_def split_sign_def digit_val_def
  round_ratio_def round_half_even_div_def round_scaled_def compute_floorlog Let_def

lemmas example_defs =
  example_ext_def example_market_def example_connector_def example_fill_def
  example_report_def example_spot_connector_def example_response_def
  example_instrument_def example_strategy_def example_position_def
  example_position_info_def

lemma ex_lookup: "lookup_symbol example_connector None ''BTCUSDT'' = Inr ''BTC/USDT:USDT''"
  by (simp add: lookup_symbol_def market_type_def example_connector_def is_spot_def is_linear_def)

lemma ex_exchange: "exchange_id example_connector = ''binance''"
  by (simp add: example_connector_def)

lemma ex_market_fill_1:
  "\<exists>ord. parse_order_trade_update example_ext example_connector
            (example_fill ''1'' ''100'' ''1'' BinanceOrderType.MARKET) = Inr ord \<and>
         cost ord = PyDecimal 100 \<and> cum_cost ord = PyDecimal 100"
  by (simp add: parse_order_trade_update_def order_costs_def ex_lookup example_fill_def
        example_ext_def number_defs binance_enum_parser_defs ex_exchange)

lemma ex_market_fill_2:
  "\<exists>ord. parse_order_trade_update example_ext example_connector
            (example_fill ''1'' ''110'' ''2'' BinanceOrderType.MARKET) = Inr ord \<and>
         cost ord = PyDecimal 110 \<and> cum_cost ord = PyDecimal 220"
  by (simp add: parse_order_trade_update_def order_costs_def ex_lookup example_fill_def
        example_ext_def number_defs binance_enum_parser_defs ex_exchange)

lemma ex_limit_zero_ap:
  "\<exists>ord. parse_order_trade_update example_ext example_connector
            (example_fill ''1'' ''0'' ''1'' BinanceOrderType.LIMIT) = Inr ord \<and>
         cost ord = PyDecimal 105 \<and> cum_cost ord = PyDecimal 105"
  by (simp add: parse_order_trade_update_def order_costs_def ex_lookup example_fill_def
        example_ext_def number_defs binance_enum_parser_defs ex_exchange)

lemma ex_spot_lookup: "lookup_symbol example_spot_connector None ''BTCUSDT'' = Inr ''BTC/USDT''"
  by (simp add: lookup_symbol_def market_type_def example_spot_connector_def is_spot_def)

lemma ex_spot_exchange: "exchange_id example_spot_connector = ''binance''"
  by (simp add: example_spot_connector_def)

text \<open>
  Claim C9. The Order published for a spot execution report has as average the float
  quotient of \<^verbatim>\<open>Z\<close> (cumulative quote volume) by \<^verbatim>\<open>z\<close> (cumulative filled quantity)
  when \<^verbatim>\<open>float(z)\<close> is not zero, and None when it is zero. The Order published for a
  futures order-trade-update has as average the float of the field \<^verbatim>\<open>ap\<close> itself.
\<close>

theorem spot_average_is_quote_over_base:
  "(parse_execution_report ext self ev = Inr ord \<longrightarrow>
      (\<exists>z. py_float (sp_z ev) = Inr z \<and>
         (float_is_zero z \<longrightarrow> average ord = PyNone) \<and>
         (\<not> float_is_zero z \<longrightarrow>
            (\<exists>Z a. py_float (sp_Z ev) = Inr Z \<and> float_truediv Z z = Inr a \<and>
                   average ord = PyFloat a)))) \<and>
   (parse_order_trade_update ext self' res = Inr ord' \<longrightarrow>
      (\<exists>a. py_float (fo_ap (fu_o res)) = Inr a \<and> average ord' = PyFloat a))"
proof (intro conjI impI)
  assume "parse_execution_report ext self ev = Inr ord"
  then obtain avg where "spot_average ev = Inr avg" "average ord = avg"
    using execution_report_fields by blast
  then show "\<exists>z. py_float (sp_z ev) = Inr z \<and>
         (float_is_zero z \<longrightarrow> average ord = PyNone) \<and>
         (\<not> float_is_zero z \<longrightarrow>
            (\<exists>Z a. py_float (sp_Z ev) = Inr Z \<and> float_truediv Z z = Inr a \<and>
                   average ord = PyFloat a))"
    using spot_average_cases by blast
next
  assume "parse_order_trade_update ext self' res = Inr ord'"
  then show "\<exists>a. py_float (fo_ap (fu_o res)) = Inr a \<and> average ord' = PyFloat a"
    using order_trade_update_fields by blast
qed

lemma ex_report_filled:
  "\<exists>ord. parse_execution_report example_ext example_spot_connector
            (example_report ''2'' ''210'') = Inr ord"
  by (simp add: parse_execution_report_def spot_average_def ex_spot_lookup example_report_def
        example_ext_def number_defs binance_enum_parser_defs ex_spot_exchange
        float_truediv_def float_is_zero_def)

lemma ex_report_unfilled:
  "\<exists>ord. parse_execution_report example_ext example_spot_connector
            (example_report ''0'' ''0'') = Inr ord"
  by (simp add: parse_execution_report_def spot_average_def ex_spot_lookup example_report_def
        example_ext_def number_defs binance_enum_parser_defs ex_spot_exchange
        float_truediv_def float_is_zero_def)

lemma ex_floats:
  "py_float ''2'' = Inr (Float 4503599627370496 (- 51))"
  "py_float ''210'' = Inr (Float 7388718138654720 (- 45))"
  "py_float ''0'' = Inr (Float 0 0)"
  "py_float ''100'' = Inr (Float 7036874417766400 (- 46))"
  "float_truediv (Float 7388718138654720 (- 45)) (Float 4503599627370496 (- 51))
     = Inr (Float 7388718138654720 (- 46))"
  "float_value (Float 7388718138654720 (- 46)) = 105"
  by (simp_all add: number_defs float_truediv_def float_value_def)

theorem spot_average_is_quote_over_base_witness:
  "(\<exists>ord. parse_execution_report example_ext example_spot_connector
            (example_report ''2'' ''210'') = Inr ord \<and>
          average ord = PyFloat (Float 7388718138654720 (- 46))) \<and>
   (\<exists>ord. parse_execution_report example_ext example_spot_connector
            (example_report ''0'' ''0'') = Inr ord \<and> average ord = PyNone) \<and>
   (\<exists>ord. parse_order_trade_update example_ext example_connector
            (example_fill ''1'' ''100'' ''1'' BinanceOrderType.MARKET) = Inr ord \<and>
          average ord = PyFloat (Float 7036874417766400 (- 46)))"
proof -
  obtain o1 where o1: "parse_execution_report example_ext example_spot_connector
            (example_report ''2'' ''210'') = Inr o1"
    using ex_report_filled by blast
  obtain o2 where o2: "parse_execution_report example_ext example_spot_connector
            (example_report ''0'' ''0'') = Inr o2"
    using ex_report_unfilled by blast
  obtain o3 where o3: "parse_order_trade_update example_ext example_connector
            (example_fill ''1'' ''100'' ''1'' BinanceOrderType.MARKET) = Inr o3"
    using ex_market_fill_1 by blast
  have a1: "average o1 = PyFloat (Float 7388718138654720 (- 46))"
    using o1 spot_average_is_quote_over_base [of example_ext example_spot_connector
        "example_report ''2'' ''210''" o1]
    by (auto simp: example_report_def ex_floats float_is_zero_def)
  have a2: "average o2 = PyNone"
    using o2 spot_average_is_quote_over_base [of example_ext example_spot_connector
        "example_report ''0'' ''0''" o2]
    by (auto simp: example_report_def ex_floats float_is_zero_def)
  have a3: "average o3 = PyFloat (Float 7036874417766400 (- 46))"
    using o3 spot_average_is_quote_over_base [where ext = example_ext
        and self' = example_connector
        and res = "example_fill ''1'' ''100'' ''1'' BinanceOrderType.MARKET" and ord' = o3]
    by (auto simp: example_fill_def ex_floats)
  show ?thesis using o1 o2 o3 a1 a2 a3 by blast
qed


section \<open>Properties of order submission\<close>

lemma pending_order_fields:
  "pending_order self smb sd ty amt tif res = Inr ord \<Longrightarrow>
     amount ord = PyDecimal amt \<and> filled ord = PyDecimal 0 \<and> remaining ord = PyDecimal amt \<and>
     status ord = OrderStatus.PENDING"
  by (auto simp: pending_order_def empty_order_def bnd_eq_Inr)

lemma failed_order_fields:
  "amount (failed_order self now smb sd ty amt pr tif pside) = PyDecimal amt \<and>
   filled (failed_order self now smb sd ty amt pr tif pside) = PyDecimal 0 \<and>
   remaining (failed_order self now smb sd ty amt pr tif pside) = PyDecimal amt \<and>
   status (failed_order self now smb sd ty amt pr tif pside) = OrderStatus.FAILED"
  by (simp add: failed_order_def empty_order_def)

lemma create_order_try:
  "market self smb = Some mkt \<Longrightarrow>
   create_order_params mkt sd ty amt pr tif pside kwargs = Inr ps \<Longrightarrow>
   fst (create_order api now self smb sd ty amt pr tif pside kwargs) =
     (case bnd (fst (execute_order_request api self mkt smb ps))
             (pending_order self smb sd ty amt tif) of
        Inr order \<Rightarrow> Inr order
      | Inl e \<Rightarrow> Inr (failed_order self now smb sd ty amt pr tif pside))"
  by (simp add: create_order_def split: prod.splits sum.splits)

lemma create_order_Inr:
  "fst (create_order api now self smb sd ty amt pr tif pside kwargs) = Inr ord \<Longrightarrow>
     \<exists>mkt ps. market self smb = Some mkt \<and>
       create_order_params mkt sd ty amt pr tif pside kwargs = Inr ps"
  by (simp add: create_order_def split: option.splits sum.splits)

lemma create_order_returns:
  assumes "fst (create_order api now self smb sd ty amt pr tif pside kwargs) = Inr ord"
  shows "amount ord = PyDecimal amt \<and> filled ord = PyDecimal 0 \<and>
         remaining ord = PyDecimal amt"
proof -
  obtain mkt ps where m: "market self smb = Some mkt"
    and p: "create_order_params mkt sd ty amt pr tif pside kwargs = Inr ps"
    using create_order_Inr [OF assms] by blast
  show ?thesis
  proof (cases "bnd (fst (execute_order_request api self mkt smb ps))
             (pending_order self smb sd ty amt tif)")
    case (Inl e)
    then have "ord = failed_order self now smb sd ty amt pr tif pside"
      using assms create_order_try [OF m p, of api now] by simp
    then show ?thesis using failed_order_fields by simp
  next
    case (Inr order)
    then have "ord = order"
      using assms create_order_try [OF m p, of api now] by simp
    moreover obtain res where "pending_order self smb sd ty amt tif res = Inr order"
      using Inr by (auto simp: bnd_eq_Inr)
    ultimately show ?thesis using pending_order_fields by blast
  qed
qed

text \<open>
  Claim C10. Every Order that the connector publishes for a futures order-trade-update
  or for a spot execution report carries Decimal values in amount, filled and remaining,
  and remaining is amount minus filled. Every Order that \<open>create_order\<close> returns has
  filled zero and remaining equal to the submitted amount, which is amount minus filled.
\<close>

theorem remaining_is_amount_minus_filled:
  "(parse_order_trade_update ext self res = Inr ord1 \<longrightarrow>
      (\<exists>a f. amount ord1 = PyDecimal a \<and> filled ord1 = PyDecimal f \<and>
             remaining ord1 = PyDecimal (a - f))) \<and>
   (parse_execution_report ext self ev = Inr ord2 \<longrightarrow>
      (\<exists>a f. amount ord2 = PyDecimal a \<and> filled ord2 = PyDecimal f \<and>
             remaining ord2 = PyDecimal (a - f))) \<and>
   (fst (create_order api now self smb sd ty amt pr tif pside kwargs) = Inr ord3 \<longrightarrow>
      amount ord3 = PyDecimal amt \<and> filled ord3 = PyDecimal 0 \<and>
      remaining ord3 = PyDecimal (amt - 0))"
proof (intro conjI impI)
  assume "parse_order_trade_update ext self res = Inr ord1"
  then show "\<exists>a f. amount ord1 = PyDecimal a \<and> filled ord1 = PyDecimal f \<and>
             remaining ord1 = PyDecimal (a - f)"
    using order_trade_update_fields by blast
next
  assume "parse_execution_report ext self ev = Inr ord2"
  then show "\<exists>a f. amount ord2 = PyDecimal a \<and> filled ord2 = PyDecimal f \<and>
             remaining ord2 = PyDecimal (a - f)"
    using execution_report_fields by blast
next
  assume a: "fst (create_order api now self smb sd ty amt pr tif pside kwargs) = Inr ord3"
  show "amount ord3 = PyDecimal amt" using create_order_returns [OF a] by simp
  show "filled ord3 = PyDecimal 0" using create_order_returns [OF a] by simp
  show "remaining ord3 = PyDecimal (amt - 0)" using create_order_returns [OF a] by simp
qed

lemma ex_create_order:
  "\<exists>ord. fst (create_order example_api 1700000000000 example_connector ''BTC/USDT:USDT''
            OrderSide.BUY OrderType.MARKET 2 None TimeInForce.GTC None []) = Inr ord \<and>
         status ord = OrderStatus.PENDING"
  by (simp add: create_order_def create_order_params_def execute_order_request_def
        rest_request_def pending_order_def float_if_set_def str_opt_def
        parse_position_side_if_set_def empty_order_def dict_pop_def
        example_api_def example_response_def example_connector_def example_market_def
        is_spot_def is_linear_def is_isolated_margin_or_margin_def
        number_defs binance_enum_parser_defs)

theorem remaining_is_amount_minus_filled_witness:
  "(\<exists>ord. parse_order_trade_update example_ext example_connector
            (example_fill ''1'' ''100'' ''1'' BinanceOrderType.MARKET) = Inr ord \<and>
          (\<exists>a f. amount ord = PyDecimal a \<and> filled ord = PyDecimal f \<and>
                 remaining ord = PyDecimal (a - f))) \<and>
   (\<exists>ord. parse_execution_report example_ext example_spot_connector
            (example_report ''2'' ''210'') = Inr ord \<and>
          (\<exists>a f. amount ord = PyDecimal a \<and> filled ord = PyDecimal f \<and>
                 remaining ord = PyDecimal (a - f))) \<and>
   (\<exists>ord. fst (create_order example_api 1700000000000 example_connector ''BTC/USDT:USDT''
            OrderSide.BUY OrderType.MARKET 2 None TimeInForce.GTC None []) = Inr ord \<and>
          amount ord = PyDecimal 2 \<and> filled ord = PyDecimal 0 \<and>
          remaining ord = PyDecimal 2)"
proof -
  obtain o1 where o1: "parse_order_trade_update example_ext example_connector
            (example_fill ''1'' ''100'' ''1'' BinanceOrderType.MARKET) = Inr o1"
    using ex_market_fill_1 by blast
  obtain o2 where o2: "parse_execution_report example_ext example_spot_connector
            (example_report ''2'' ''210'') = Inr o2"
    using ex_report_filled by blast
  obtain o3 where o3: "fst (create_order example_api 1700000000000 example_connector
            ''BTC/USDT:USDT'' OrderSide.BUY OrderType.MARKET 2 None TimeInForce.GTC None [])
            = Inr o3"
    using ex_create_order by blast
  note t = remaining_is_amount_minus_filled [where ext = example_ext
      and res = "example_fill ''1'' ''100'' ''1'' BinanceOrderType.MARKET"
      and ev = "example_report ''2'' ''210''" and api = example_api and now = 1700000000000
      and smb = "''BTC/USDT:USDT''" and sd = OrderSide.BUY and ty = OrderType.MARKET
      and amt = 2 and pr = None and tif = TimeInForce.GTC and pside = None and kwargs = "[]"]
  have "\<exists>a f. amount o1 = PyDecimal a \<and> filled o1 = PyDecimal f \<and>
                 remaining o1 = PyDecimal (a - f)"
    using o1 t [where self = example_connector and ?ord1.0 = o1] by blast
  moreover have "\<exists>a f. amount o2 = PyDecimal a \<and> filled o2 = PyDecimal f \<and>
                 remaining o2 = PyDecimal (a - f)"
    using o2 t [where self = example_spot_connector and ?ord2.0 = o2] by blast
  moreover have "amount o3 = PyDecimal 2 \<and> filled o3 = PyDecimal 0 \<and>
          remaining o3 = PyDecimal 2"
    using o3 t [where self = example_connector and ?ord3.0 = o3] by simp
  ultimately show ?thesis using o1 o2 o3 by blast
qed


section \<open>Properties of the position updates\<close>

text \<open>
  Claim C5. Every Position that a streamed account update or the initial account
  snapshot applies to the cache was built from one of the positions of the message, and
  when that position reports the netted side BOTH its side is recomputed from the signed
  amount: no side for zero, LONG for a positive amount, SHORT for a negative one.
\<close>

theorem position_side_from_signed_amount:
  "(parse_account_update self res = (r, ops) \<and> ApplyPosition pos \<in> set ops \<longrightarrow>
      (\<exists>p \<in> set (au_P res).
         update_position self (au_fs res) p = Inr pos \<and>
         Decimal (pd_pa p) = Inr (signed_amount pos) \<and>
         (pd_ps p = BinancePositionSide.BOTH \<longrightarrow>
            pos_side pos =
              (if signed_amount pos = 0 then None
               else if 0 < signed_amount pos then Some PositionSide.LONG
               else Some PositionSide.SHORT)))) \<and>
   (init_account_balance get_account self = (r', ops') \<and> ApplyPosition pos' \<in> set ops' \<longrightarrow>
      (\<exists>ep info. get_account ep = Inr info \<and>
         (\<exists>p \<in> set (ai_positions info).
            snapshot_position self p = Inr pos' \<and>
            Decimal (pi_positionAmt p) = Inr (signed_amount pos') \<and>
            (pi_positionSide p = BinancePositionSide.BOTH \<longrightarrow>
               pos_side pos' =
                 (if signed_amount pos' = 0 then None
                  else if 0 < signed_amount pos' then Some PositionSide.LONG
                  else Some PositionSide.SHORT)))))"
proof (intro conjI impI)
  assume a: "parse_account_update self res = (r, ops) \<and> ApplyPosition pos \<in> set ops"
  then obtain r0 ops0 where l: "apply_positions (update_position self (au_fs res)) (au_P res) = (r0, ops0)"
    and m: "ApplyPosition pos \<in> set ops0"
    by (auto simp: parse_account_update_def split: sum.splits prod.splits)
  obtain p where p: "p \<in> set (au_P res)" "update_position self (au_fs res) p = Inr pos"
    using apply_positions_mem [OF l m] by auto
  show "\<exists>p \<in> set (au_P res).
         update_position self (au_fs res) p = Inr pos \<and>
         Decimal (pd_pa p) = Inr (signed_amount pos) \<and>
         (pd_ps p = BinancePositionSide.BOTH \<longrightarrow>
            pos_side pos =
              (if signed_amount pos = 0 then None
               else if 0 < signed_amount pos then Some PositionSide.LONG
               else Some PositionSide.SHORT))"
    using p update_position_side [OF p(2)] by (auto simp: recompute_side_flat)
next
  assume a: "init_account_balance get_account self = (r', ops') \<and> ApplyPosition pos' \<in> set ops'"
  then obtain ep info r0 ops0 where g: "get_account ep = Inr info"
    and l: "apply_positions (snapshot_position self) (ai_positions info) = (r0, ops0)"
    and m: "ApplyPosition pos' \<in> set ops0"
    by (auto simp: init_account_balance_def Let_def bnd_eq_Inr
          split: sum.splits prod.splits if_splits)
  obtain p where p: "p \<in> set (ai_positions info)" "snapshot_position self p = Inr pos'"
    using apply_positions_mem [OF l m] by auto
  have "\<exists>p \<in> set (ai_positions info).
            snapshot_position self p = Inr pos' \<and>
            Decimal (pi_positionAmt p) = Inr (signed_amount pos') \<and>
            (pi_positionSide p = BinancePositionSide.BOTH \<longrightarrow>
               pos_side pos' =
                 (if signed_amount pos' = 0 then None
                  else if 0 < signed_amount pos' then Some PositionSide.LONG
                  else Some PositionSide.SHORT))"
    using p snapshot_position_side [OF p(2)] by (auto simp: recompute_side_flat)
  then show "\<exists>ep info. get_account ep = Inr info \<and>
         (\<exists>p \<in> set (ai_positions info).
            snapshot_position self p = Inr pos' \<and>
            Decimal (pi_positionAmt p) = Inr (signed_amount pos') \<and>
            (pi_positionSide p = BinancePositionSide.BOTH \<longrightarrow>
               pos_side pos' =
                 (if signed_amount pos' = 0 then None
                  else if 0 < signed_amount pos' then Some PositionSide.LONG
                  else Some PositionSide.SHORT)))"
    using g by blast
qed

lemma ex_update_position:
  "update_position example_connector None (example_position ''-3'' BinancePositionSide.BOTH)
     = Inr \<lparr>pos_symbol = ''BTC/USDT:USDT'', pos_exchange = ''binance'', signed_amount = - 3,
            pos_side = Some PositionSide.SHORT,
            entry_price = Float 7036874417766400 (- 46), unrealized_pnl = Float 0 0,
            realized_pnl = Some (Float 0 0)\<rparr>"
  by (simp add: update_position_def ex_lookup ex_exchange example_position_def
        recompute_side_def number_defs)

lemma ex_snapshot_position:
  "snapshot_position example_connector (example_position_info ''0'' BinancePositionSide.BOTH)
     = Inr \<lparr>pos_symbol = ''BTC/USDT:USDT'', pos_exchange = ''binance'', signed_amount = 0,
            pos_side = None,
            entry_price = Float 7036874417766400 (- 46), unrealized_pnl = Float 0 0,
            realized_pnl = None\<rparr>"
  by (simp add: snapshot_position_def ex_lookup ex_exchange example_position_info_def
        recompute_side_def number_defs)

lemma ex_account_update:
  "parse_account_update example_connector (example_account_update ''-3'')
     = (None, [ApplyBalance USD_M_FUTURE [],
               ApplyPosition \<lparr>pos_symbol = ''BTC/USDT:USDT'', pos_exchange = ''binance'',
                 signed_amount = - 3, pos_side = Some PositionSide.SHORT,
                 entry_price = Float 7036874417766400 (- 46), unrealized_pnl = Float 0 0,
                 realized_pnl = Some (Float 0 0)\<rparr>])"
  by (simp add: parse_account_update_def example_account_update_def ex_update_position)
    (simp add: example_connector_def)

lemma ex_init_account_balance:
  "init_account_balance (example_account_info ''0'') example_connector
     = (None, [ApplyBalance USD_M_FUTURE [],
               ApplyPosition \<lparr>pos_symbol = ''BTC/USDT:USDT'', pos_exchange = ''binance'',
                 signed_amount = 0, pos_side = None,
                 entry_price = Float 7036874417766400 (- 46), unrealized_pnl = Float 0 0,
                 realized_pnl = None\<rparr>])"
proof -
  have a: "account_type example_connector = USD_M_FUTURE"
    by (simp add: example_connector_def)
  show ?thesis
    by (simp add: init_account_balance_def a example_account_info_def ex_snapshot_position
          is_spot_def is_linear_def is_isolated_margin_or_margin_def is_inverse_def)
qed

theorem position_side_from_signed_amount_witness:
  "parse_account_update example_connector (example_account_update ''-3'')
     = (None, [ApplyBalance USD_M_FUTURE [],
               ApplyPosition \<lparr>pos_symbol = ''BTC/USDT:USDT'', pos_exchange = ''binance'',
                 signed_amount = - 3, pos_side = Some PositionSide.SHORT,
                 entry_price = Float 7036874417766400 (- 46), unrealized_pnl = Float 0 0,
                 realized_pnl = Some (Float 0 0)\<rparr>]) \<and>
   init_account_balance (example_account_info ''0'') example_connector
     = (None, [ApplyBalance USD_M_FUTURE [],
               ApplyPosition \<lparr>pos_symbol = ''BTC/USDT:USDT'', pos_exchange = ''binance'',
                 signed_amount = 0, pos_side = None,
                 entry_price = Float 7036874417766400 (- 46), unrealized_pnl = Float 0 0,
                 realized_pnl = None\<rparr>]) \<and>
   pos_side \<lparr>pos_symbol = ''BTC/USDT:USDT'', pos_exchange = ''binance'',
                 signed_amount = - 3, pos_side = Some PositionSide.SHORT,
                 entry_price = Float 7036874417766400 (- 46), unrealized_pnl = Float 0 0,
                 realized_pnl = Some (Float 0 0)\<rparr> =
     (if (- 3 :: rat) = 0 then None else if (0 :: rat) < - 3 then Some PositionSide.LONG
      else Some PositionSide.SHORT)"
  using ex_account_update ex_init_account_balance
    position_side_from_signed_amount [where self = example_connector
      and res = "example_account_update ''-3''" and r = None
      and ops = "[ApplyBalance USD_M_FUTURE [],
               ApplyPosition \<lparr>pos_symbol = ''BTC/USDT:USDT'', pos_exchange = ''binance'',
                 signed_amount = - 3, pos_side = Some PositionSide.SHORT,
                 entry_price = Float 7036874417766400 (- 46), unrealized_pnl = Float 0 0,
                 realized_pnl = Some (Float 0 0)\<rparr>]"
      and pos = "\<lparr>pos_symbol = ''BTC/USDT:USDT'', pos_exchange = ''binance'',
                 signed_amount = - 3, pos_side = Some PositionSide.SHORT,
                 entry_price = Float 7036874417766400 (- 46), unrealized_pnl = Float 0 0,
                 realized_pnl = Some (Float 0 0)\<rparr>"
      and get_account = "example_account_info ''0''" and r' = None
      and ops' = "[ApplyBalance USD_M_FUTURE [],
               ApplyPosition \<lparr>pos_symbol = ''BTC/USDT:USDT'', pos_exchange = ''binance'',
                 signed_amount = 0, pos_side = None,
                 entry_price = Float 7036874417766400 (- 46), unrealized_pnl = Float 0 0,
                 realized_pnl = None\<rparr>]"
      and pos' = "\<lparr>pos_symbol = ''BTC/USDT:USDT'', pos_exchange = ''binance'',
                 signed_amount = 0, pos_side = None,
                 entry_price = Float 7036874417766400 (- 46), unrealized_pnl = Float 0 0,
                 realized_pnl = None\<rparr>"]
  by simp


section \<open>Cost of a futures fill\<close>





section \<open>Algo orders with a wait longer than the duration\<close>

text \<open>
  Claim C3 at \<^verbatim>\<open>wait=60, duration=30\<close>: \<open>create_twap\<close> raises nothing, returns the
  uuid and leaves the TWAP submission in the queue of the EMS.
\<close>

theorem create_twap_wait_exceeds_duration:
  "fst (create_twap example_from_str ''u1'' example_strategy ''BTCUSDT-PERP.BINANCE''
          OrderSide.BUY 1 30 60 (round_ratio 1 10) None None []) = Inr ''ALGO-u1'' \<and>
   Option.bind
     (snd (create_twap example_from_str ''u1'' example_strategy ''BTCUSDT-PERP.BINANCE''
          OrderSide.BUY 1 30 60 (round_ratio 1 10) None None []) BINANCE)
     (\<lambda>ems. order_submit_queues ems USD_M_FUTURE) =
   Some [\<lparr>os_symbol = ''BTCUSDT-PERP.BINANCE'', os_instrument_id = example_instrument,
          os_uuid = ''ALGO-u1'', os_submit_type = SubmitType.TWAP, os_side = OrderSide.BUY,
          os_amount = 1, os_duration = 30, os_wait = 60,
          os_check_interval = round_ratio 1 10, os_position_side = None,
          os_trigger_tp_ratio = None, os_trigger_sl_ratio = None, os_tp_ratio = None,
          os_sl_ratio = None, os_kwargs = []\<rparr>]"
  by (simp add: create_twap_def enqueue_def submit_order_def example_from_str_def
        example_strategy_def example_instrument_def build_order_submit_queues_def
        instrument_id_to_account_type_def set_account_type_def init_account_types_def
        BINANCE_SPOT_PRIORITY_def)

text \<open>
  \<open>create_adp_maker\<close> at the same input raises OrderError and leaves every queue as it
  was.
\<close>

lemma create_adp_maker_enqueues_nothing:
  "fst (create_adp_maker example_from_str ''u1'' example_strategy ''BTCUSDT-PERP.BINANCE''
          OrderSide.BUY 1 30 60 (round_ratio 1 10) None None None None None None [])
     = Inl (OrderError ''wait must be less than duration'') \<and>
   snd (create_adp_maker example_from_str ''u1'' example_strategy ''BTCUSDT-PERP.BINANCE''
          OrderSide.BUY 1 30 60 (round_ratio 1 10) None None None None None None [])
     = example_strategy"
  by (simp add: create_adp_maker_wait_exceeds_duration)


section \<open>Failures of submission and cancellation\<close>

lemma rest_request_raises:
  "\<forall>ep p. \<exists>err. api ep p = Inl err \<Longrightarrow> \<exists>e. fst (rest_request api ep ps) = Inl e"
proof -
  assume a: "\<forall>ep p. \<exists>err. api ep p = Inl err"
  then obtain err where "api ep ps = Inl err" by blast
  then show ?thesis by (simp add: rest_request_def)
qed

lemma execute_order_request_raises:
  assumes "\<forall>ep p. \<exists>err. api ep p = Inl err"
  shows "(\<exists>e. fst (execute_order_request api self mkt smb ps) = Inl e) \<or>
         fst (execute_order_request api self mkt smb ps) = Inr None"
  using rest_request_raises [OF assms]
  by (simp add: execute_order_request_def Let_def)

lemma execute_cancel_order_request_raises:
  assumes "\<forall>ep p. \<exists>err. api ep p = Inl err"
  shows "(\<exists>e. fst (execute_cancel_order_request api self mkt smb ps) = Inl e) \<or>
         fst (execute_cancel_order_request api self mkt smb ps) = Inr None"
  using rest_request_raises [OF assms]
  by (simp add: execute_cancel_order_request_def Let_def)

lemma create_order_try_raises:
  assumes "\<forall>ep p. \<exists>err. api ep p = Inl err"
  shows "\<exists>e. bnd (fst (execute_order_request api self mkt smb ps))
               (pending_order self smb sd ty amt tif) = Inl e"
  using execute_order_request_raises [OF assms, of self mkt smb ps]
  by (auto simp: pending_order_def)

lemma cancel_order_found:
  "market self smb = Some mkt \<Longrightarrow>
     \<exists>ord. fst (cancel_order api now self smb oid kwargs) = Inr ord \<and>
       (\<forall>e. fst (cancel_order_try api self smb oid kwargs) = Inl e \<longrightarrow>
          status ord = OrderStatus.FAILED)"
  by (auto simp: cancel_order_def cancel_order_try_def Let_def empty_order_def
        split: prod.splits sum.splits)

lemma cancel_order_try_raises:
  assumes "\<forall>ep p. \<exists>err. api ep p = Inl err" and "market self smb = Some mkt"
  shows "\<exists>e. fst (cancel_order_try api self smb oid kwargs) = Inl e"
  using execute_cancel_order_request_raises [OF assms(1), of self mkt "market_id_of mkt"
      "dict_update [(''symbol'', PyStr (market_id_of mkt)), (''order_id'', PyInt oid)] kwargs"]
    assms(2)
  by (auto simp: cancel_order_try_def Let_def canceling_order_def split: prod.splits)

text \<open>
  Claim C2, as amended. Once \<open>create_order\<close> has found the market and built its
  parameters, it returns an Order whatever happens next: when the request or the
  building of the PENDING order raises, and in particular when every REST call raises,
  the Order is FAILED with filled zero and remaining equal to the amount. Once
  \<open>cancel_order\<close> has found the market, it returns an Order, FAILED when the body of
  its \<^verbatim>\<open>try\<close> raises.
\<close>

theorem submission_failure_returns_failed_order:
  "(market self smb = Some mkt \<and>
    create_order_params mkt sd ty amt pr tif pside kwargs = Inr ps \<longrightarrow>
      (\<exists>ord. fst (create_order api now self smb sd ty amt pr tif pside kwargs) = Inr ord \<and>
         ((\<exists>e. bnd (fst (execute_order_request api self mkt smb ps))
                  (pending_order self smb sd ty amt tif) = Inl e) \<longrightarrow>
            status ord = OrderStatus.FAILED \<and> filled ord = PyDecimal 0 \<and>
            remaining ord = PyDecimal amt) \<and>
         ((\<forall>ep p. \<exists>err. api ep p = Inl err) \<longrightarrow> status ord = OrderStatus.FAILED))) \<and>
   (market self smb' = Some mkt' \<longrightarrow>
      (\<exists>ord. fst (cancel_order api now self smb' oid kwargs') = Inr ord \<and>
         ((\<exists>e. fst (cancel_order_try api self smb' oid kwargs') = Inl e) \<longrightarrow>
            status ord = OrderStatus.FAILED) \<and>
         ((\<forall>ep p. \<exists>err. api ep p = Inl err) \<longrightarrow> status ord = OrderStatus.FAILED)))"
proof (intro conjI impI)
  assume a: "market self smb = Some mkt \<and>
    create_order_params mkt sd ty amt pr tif pside kwargs = Inr ps"
  then have m: "market self smb = Some mkt"
    and p: "create_order_params mkt sd ty amt pr tif pside kwargs = Inr ps" by simp_all
  note t = create_order_try [OF m p, of api now]
  show "\<exists>ord. fst (create_order api now self smb sd ty amt pr tif pside kwargs) = Inr ord \<and>
         ((\<exists>e. bnd (fst (execute_order_request api self mkt smb ps))
                  (pending_order self smb sd ty amt tif) = Inl e) \<longrightarrow>
            status ord = OrderStatus.FAILED \<and> filled ord = PyDecimal 0 \<and>
            remaining ord = PyDecimal amt) \<and>
         ((\<forall>ep p. \<exists>err. api ep p = Inl err) \<longrightarrow> status ord = OrderStatus.FAILED)"
  proof (cases "bnd (fst (execute_order_request api self mkt smb ps))
                  (pending_order self smb sd ty amt tif)")
    case (Inl e)
    then have "fst (create_order api now self smb sd ty amt pr tif pside kwargs)
        = Inr (failed_order self now smb sd ty amt pr tif pside)"
      using t by simp
    then show ?thesis using failed_order_fields by auto
  next
    case (Inr order)
    then have "fst (create_order api now self smb sd ty amt pr tif pside kwargs) = Inr order"
      using t by simp
    moreover have "\<not> (\<forall>ep p. \<exists>err. api ep p = Inl err)"
      using Inr create_order_try_raises [of api self mkt smb ps sd ty amt tif] by auto
    ultimately show ?thesis using Inr by auto
  qed
next
  assume m: "market self smb' = Some mkt'"
  obtain ord where o: "fst (cancel_order api now self smb' oid kwargs') = Inr ord"
    and f: "\<forall>e. fst (cancel_order_try api self smb' oid kwargs') = Inl e \<longrightarrow>
          status ord = OrderStatus.FAILED"
    using cancel_order_found [OF m] by blast
  have "(\<forall>ep p. \<exists>err. api ep p = Inl err) \<longrightarrow> status ord = OrderStatus.FAILED"
    using cancel_order_try_raises [OF _ m, of api oid kwargs'] f by blast
  then show "\<exists>ord. fst (cancel_order api now self smb' oid kwargs') = Inr ord \<and>
         ((\<exists>e. fst (cancel_order_try api self smb' oid kwargs') = Inl e) \<longrightarrow>
            status ord = OrderStatus.FAILED) \<and>
         ((\<forall>ep p. \<exists>err. api ep p = Inl err) \<longrightarrow> status ord = OrderStatus.FAILED)"
    using o f by blast
qed

lemma ex_market_lookup: "market example_connector ''BTC/USDT:USDT'' = Some example_market"
  by (simp add: example_connector_def)

lemma ex_create_order_params:
  "create_order_params example_market OrderSide.BUY OrderType.MARKET 2 None TimeInForce.GTC
     None [] =
   Inr [(''symbol'', PyStr ''BTCUSDT''), (''side'', PyStr ''BUY''), (''type'', PyStr ''MARKET''),
        (''quantity'', PyDecimal 2)]"
  by (simp add: create_order_params_def dict_pop_def example_market_def
        binance_enum_parser_defs)

theorem submission_failure_returns_failed_order_witness:
  "(\<exists>ord. fst (create_order failing_api 1700000000000 example_connector ''BTC/USDT:USDT''
             OrderSide.BUY OrderType.MARKET 2 None TimeInForce.GTC None []) = Inr ord \<and>
          status ord = OrderStatus.FAILED \<and> filled ord = PyDecimal 0 \<and>
          remaining ord = PyDecimal 2) \<and>
   (\<exists>ord. fst (cancel_order failing_api 1700000000000 example_connector ''BTC/USDT:USDT''
             7 []) = Inr ord \<and> status ord = OrderStatus.FAILED)"
proof -
  have f: "\<forall>ep p. \<exists>err. failing_api ep p = Inl err"
    by (simp add: failing_api_def)
  note t = submission_failure_returns_failed_order [where api = failing_api
      and self = example_connector and smb = "''BTC/USDT:USDT''" and mkt = example_market
      and smb' = "''BTC/USDT:USDT''" and mkt' = example_market
      and sd = OrderSide.BUY and ty = OrderType.MARKET and amt = 2 and pr = None
      and tif = TimeInForce.GTC and pside = None and kwargs = "[]"
      and ps = "[(''symbol'', PyStr ''BTCUSDT''), (''side'', PyStr ''BUY''),
                 (''type'', PyStr ''MARKET''), (''quantity'', PyDecimal 2)]"
      and now = 1700000000000 and oid = 7 and kwargs' = "[]"]
  have e: "\<exists>e. bnd (fst (execute_order_request failing_api example_connector example_market
                 ''BTC/USDT:USDT''
                 [(''symbol'', PyStr ''BTCUSDT''), (''side'', PyStr ''BUY''),
                  (''type'', PyStr ''MARKET''), (''quantity'', PyDecimal 2)]))
             (pending_order example_connector ''BTC/USDT:USDT'' OrderSide.BUY OrderType.MARKET 2
                TimeInForce.GTC) = Inl e"
    using create_order_try_raises [OF f] by blast
  show ?thesis
    using t ex_market_lookup ex_create_order_params f e by blast
qed

text \<open>
  The claim as stated fails before the \<^verbatim>\<open>try\<close>: for a symbol that the market table
  does not have, \<open>create_order\<close> raises ValueError to its caller.
\<close>

theorem create_order_absent_symbol_counterexample:
  "fst (create_order example_api 1700000000000 example_connector ''ETH/USDT:USDT''
          OrderSide.BUY OrderType.MARKET 2 None TimeInForce.GTC None [])
     = Inl (ValueError ''Symbol ETH/USDT:USDT formated wrongly, or not supported'')"
  by (simp add: create_order_def example_connector_def symbol_not_supported_def)


text \<open>
  Claim C4, as amended. For a symbol absent from the market table \<open>create_order\<close>
  raises the ValueError that names the symbol as not supported and sends no request;
  \<open>cancel_order\<close> sends no request either.
\<close>

theorem absent_symbol_no_rest_call:
  "market self smb = None \<longrightarrow>
     create_order api now self smb sd ty amt pr tif pside kwargs
       = (Inl (symbol_not_supported smb), []) \<and>
     snd (cancel_order api now self smb oid kwargs') = []"
  by (simp add: create_order_def cancel_order_def cancel_order_try_def)

theorem absent_symbol_no_rest_call_witness:
  "market example_connector ''ETH/USDT:USDT'' = None \<and>
   create_order example_api 1700000000000 example_connector ''ETH/USDT:USDT''
       OrderSide.BUY OrderType.LIMIT 2 (Some 100) TimeInForce.GTC None []
     = (Inl (ValueError ''Symbol ETH/USDT:USDT formated wrongly, or not supported''), []) \<and>
   snd (cancel_order example_api 1700000000000 example_connector ''ETH/USDT:USDT'' 7 []) = []"
proof -
  have n: "market example_connector ''ETH/USDT:USDT'' = None"
    by (simp add: example_connector_def)
  show ?thesis
    using n absent_symbol_no_rest_call [of example_connector "''ETH/USDT:USDT''" example_api
        1700000000000 OrderSide.BUY OrderType.LIMIT 2 "Some 100" TimeInForce.GTC None "[]" 7 "[]"]
    by (simp add: symbol_not_supported_def)
qed

text \<open>
  The claim as stated fails for \<open>cancel_order\<close>: its lookup is inside the \<^verbatim>\<open>try\<close>,
  so the ValueError for the symbol is caught and is not what the caller receives.
\<close>

theorem cancel_order_absent_symbol_counterexample:
  "fst (cancel_order example_api 1700000000000 example_connector ''ETH/USDT:USDT'' 7 [])
     \<noteq> Inl (symbol_not_supported ''ETH/USDT:USDT'')"
  by (simp add: cancel_order_def cancel_order_try_def example_connector_def
        symbol_not_supported_def)

text \<open>
  What the caller receives instead: the handler reads \<^verbatim>\<open>params\<close>, which is unbound at
  that point.
\<close>

lemma cancel_order_absent_symbol_raises:
  "market self smb = None \<Longrightarrow>
     cancel_order api now self smb oid kwargs = (Inl UnboundLocalError, [])"
  by (simp add: cancel_order_def cancel_order_try_def)


section \<open>Minimum order amount\<close>




end
